theory Spec2Isabelle
  imports Main
begin

section \<open>The asset store: reconciliation and upsert over a property graph\<close>

text \<open>
  The development embeds the repository layer of \<^verbatim>\<open>asset_store/repository/neo4j\<close>
  (\<^verbatim>\<open>neo_repository.py\<close>, \<^verbatim>\<open>edge.py\<close>, \<^verbatim>\<open>entity_tag.py\<close>, \<^verbatim>\<open>edge_tag.py\<close>): the
  package its tests exercise and the one that carries the event log and the freshness
  merge. The tree also holds \<^verbatim>\<open>asset_db\<close>, the earlier copy of the same layer. It has
  neither events nor freshness, and its decoders start from \<^verbatim>\<open>Edge()\<close> and
  \<^verbatim>\<open>EntityTag()\<close>, which the dataclasses of \<^verbatim>\<open>asset_db/types\<close> (all fields required)
  do not accept; it is not embedded, and where it decides differently the text says so.

  Names are the source's, without the leading underscore of the private helpers
  (\<open>emit\<close>, \<open>find_existing_edge\<close>, \<open>relationship_to_edge\<close>, \<open>node_to_entity_tag\<close>, ...);
  \<open>init\<close> is the constructor.

  The graph database is explicit state: a record of the stored nodes and relationships.
  Every Cypher statement the code sends is one function on that record, named after what
  it matches; where the code pastes a value into the statement text, the function first
  asks whether the text still reads as the statement. Payloads (Asset, Relation,
  Property) come from the package \<^verbatim>\<open>asset_model\<close>, which is a dependency and not part of
  the sources; their operations are the fields of a parameter record that every function
  takes first. Exceptions are values of \<open>error\<close>; an operation that may write returns the
  repository it leaves behind together with its result, so that "no write" is a
  statement about the returned repository.
\<close>

subsection \<open>Payload operations taken from \<^verbatim>\<open>asset_model\<close>\<close>

text \<open>A point in time; only the order of two of them matters (the \<^verbatim>\<open>since\<close> filter).\<close>

type_synonym datetime = nat

text \<open>
  \<open>'a\<close>, \<open>'r\<close> and \<open>'p\<close> are the assets, relations and properties of the library and
  \<open>'v\<close> the values a payload field may hold. \<^verbatim>\<open>to_dict()\<close> is a list of keys with their
  values, \<open>None\<close> for Python's \<^verbatim>\<open>None\<close>; the keys of one dictionary differ, and
  the dictionaries are flat (no value is a dictionary itself), so that the flattening
  done on the way to the store leaves them as they are.
\<close>

type_synonym 'v pydict = "(string \<times> 'v option) list"

text \<open>The properties of a stored node or relationship that belong to the payload.\<close>

type_synonym 'v fields = "(string \<times> 'v) list"

record ('a, 'r, 'p, 'v) asset_model =
  asset_type :: "'a \<Rightarrow> string"
  valid_relationship :: "string \<Rightarrow> string \<Rightarrow> string \<Rightarrow> string \<Rightarrow> bool"
  label :: "'r \<Rightarrow> string"
  relation_type :: "'r \<Rightarrow> string"
  equals :: "'r \<Rightarrow> 'r \<Rightarrow> bool"
  rel_is_fresher_than :: "'r \<Rightarrow> 'r \<Rightarrow> bool"
  rel_override_with :: "'r \<Rightarrow> 'r \<Rightarrow> 'r"
  rel_to_dict :: "'r \<Rightarrow> 'v pydict"
  is_relation_type :: "string \<Rightarrow> bool"
  rel_from_dict :: "string \<Rightarrow> 'v fields \<Rightarrow> 'r option"
  property_type :: "'p \<Rightarrow> string"
  prop_name :: "'p \<Rightarrow> string"
  prop_is_fresher_than :: "'p \<Rightarrow> 'p \<Rightarrow> bool"
  prop_override_with :: "'p \<Rightarrow> 'p \<Rightarrow> 'p"
  prop_to_dict :: "'p \<Rightarrow> 'v pydict"
  is_property_type :: "string \<Rightarrow> bool"
  prop_from_dict :: "string \<Rightarrow> 'v fields \<Rightarrow> 'p option"

text \<open>
  \<open>rel_is_fresher_than M x y\<close> is \<^verbatim>\<open>x.is_fresher_than(y)\<close>, \<open>rel_override_with M x y\<close> is
  \<^verbatim>\<open>x.override_with(y)\<close>, \<open>equals M x y\<close> is \<^verbatim>\<open>x.equals(y)\<close>; likewise for properties.
  \<open>rel_to_dict M x\<close> and \<open>prop_to_dict M x\<close> are \<^verbatim>\<open>x.to_dict()\<close>.

  \<open>is_relation_type M t\<close> says whether \<^verbatim>\<open>RelationType(t)\<close> succeeds (it raises
  \<^verbatim>\<open>ValueError\<close> on a string that names no relation type). \<open>rel_from_dict M t f\<close> is what
  the decoder does with the stored fields \<open>f\<close> of a relationship whose \<^verbatim>\<open>etype\<close> is \<open>t\<close>:
  \<^verbatim>\<open>get_relation_by_type\<close>, \<^verbatim>\<open>describe_type\<close>, picking the described keys and the
  \<^verbatim>\<open>extra_\<close> keys, \<^verbatim>\<open>OAMObject.from_dict\<close>; it is \<open>None\<close> when one of these library calls
  raises. The same two for properties, with \<^verbatim>\<open>PropertyType\<close> and
  \<^verbatim>\<open>get_property_by_type\<close>.
\<close>

subsection \<open>Python string helpers\<close>

definition upper_char :: "char \<Rightarrow> char" where
  "upper_char c =
     (case map_of (zip ''abcdefghijklmnopqrstuvwxyz'' ''ABCDEFGHIJKLMNOPQRSTUVWXYZ'') c of
        None \<Rightarrow> c | Some u \<Rightarrow> u)"

definition upper :: "string \<Rightarrow> string" where
  "upper s = map upper_char s"

definition casefold_char :: "char \<Rightarrow> char" where
  "casefold_char c =
     (case map_of (zip ''ABCDEFGHIJKLMNOPQRSTUVWXYZ'' ''abcdefghijklmnopqrstuvwxyz'') c of
        None \<Rightarrow> c | Some l \<Rightarrow> l)"

definition casefold :: "string \<Rightarrow> string" where
  "casefold s = map casefold_char s"

text \<open>Both act on the ASCII letters, which is where relation labels live.\<close>

subsection \<open>Values pasted into statement text\<close>

text \<open>
  \<^verbatim>\<open>create_edge\<close> builds its statements with f-strings: the relationship type
  \<^verbatim>\<open>-[r:{new_edge.label} ...]->\<close> is the upper-cased label as it is, and the entity ids
  stand between double quotes. The tag statements paste the property type after
  \<^verbatim>\<open>:EntityTag:\<close> and the keys of \<^verbatim>\<open>to_dict()\<close> after \<^verbatim>\<open>p.\<close> and \<^verbatim>\<open>$\<close>;
  \<^verbatim>\<open>find_entity_tags\<close> and \<^verbatim>\<open>find_edge_tags\<close> paste the owner id between single quotes.

  The server reads a pasted type, label or key as a name when it is a bare name: a
  letter or an underscore followed by letters, digits and underscores (names are taken
  to be ASCII, as for \<open>upper\<close>). With anything else (an empty label, a blank, a hyphen)
  the text is not the statement that was meant: the server rejects it, the driver
  raises and nothing is written. Likewise a quote or a backslash inside an id ends or
  bends the string literal it stands in. The model gives all of these the syntax
  error; a value written on purpose so that the text reads as some other statement is
  outside it.
\<close>

definition name_start :: "char \<Rightarrow> bool" where
  "name_start c =
     List.member ''abcdefghijklmnopqrstuvwxyzABCDEFGHIJKLMNOPQRSTUVWXYZ_'' c"

definition name_part :: "char \<Rightarrow> bool" where
  "name_part c =
     List.member ''abcdefghijklmnopqrstuvwxyzABCDEFGHIJKLMNOPQRSTUVWXYZ_0123456789'' c"

definition cypher_name :: "string \<Rightarrow> bool" where
  "cypher_name s = (case s of [] \<Rightarrow> False | c # cs \<Rightarrow> name_start c \<and> list_all name_part cs)"

definition double_quoted :: "string \<Rightarrow> bool" where
  "double_quoted s = (\<not> List.member s (CHR 0x22) \<and> \<not> List.member s (CHR 0x5C))"

definition single_quoted :: "string \<Rightarrow> bool" where
  "single_quoted s = (\<not> List.member s (CHR 0x27) \<and> \<not> List.member s (CHR 0x5C))"

subsection \<open>Errors\<close>

datatype error =
    TaxonomyViolation       \<comment> \<open>\<^verbatim>\<open>"{} -{}-> {} is not valid in the taxonomy"\<close>\<close>
  | EdgeNotFound            \<comment> \<open>\<^verbatim>\<open>"no edge was found"\<close>\<close>
  | EntityNotFound          \<comment> \<open>\<^verbatim>\<open>"the entity with ID ... was not found"\<close>\<close>
  | TagNotFound             \<comment> \<open>\<^verbatim>\<open>"the entity tag with ID ... was not found"\<close>, and the edge tag one\<close>
  | NoRecordsReturned       \<comment> \<open>\<^verbatim>\<open>"no records returned from the query"\<close>\<close>
  | MalformedTag            \<comment> \<open>\<^verbatim>\<open>"malformed entity tag"\<close>\<close>
  | NoTagsFound             \<comment> \<open>\<^verbatim>\<open>"no entity tags found"\<close>, \<^verbatim>\<open>"no entity tag found"\<close>\<close>
  | ExtractError string     \<comment> \<open>\<^verbatim>\<open>"Unable to extract '...'"\<close>\<close>
  | ValueError              \<comment> \<open>Python's own: \<^verbatim>\<open>RelationType(x)\<close>, \<^verbatim>\<open>PropertyType(x)\<close> on no member\<close>
  | DecodeError             \<comment> \<open>what \<^verbatim>\<open>get_*_by_type\<close> or \<^verbatim>\<open>from_dict\<close> of the library raise\<close>
  | AttributeError          \<comment> \<open>Python's own: an attribute the object does not have\<close>
  | CypherSyntaxError       \<comment> \<open>the server rejects the statement text\<close>

text \<open>
  The specification's kind \<^verbatim>\<open>NotFound\<close> is the three "was not found" messages.
\<close>

fun is_NotFound :: "error \<Rightarrow> bool" where
  "is_NotFound EdgeNotFound = True"
| "is_NotFound EntityNotFound = True"
| "is_NotFound TagNotFound = True"
| "is_NotFound _ = False"

subsection \<open>Records of the data model\<close>

text \<open>
  Modelled from the spec: the classes of \<^verbatim>\<open>asset_store.types\<close> (Entity, Edge, EntityTag,
  EdgeTag) and of \<^verbatim>\<open>asset_store.events\<close> are not among the sources. Their fields are the
  ones section 3 of the specification lists and the constructor calls in \<^verbatim>\<open>edge.py\<close>,
  \<^verbatim>\<open>entity_tag.py\<close> and \<^verbatim>\<open>edge_tag.py\<close> name. An identifier, a timestamp or a property
  that a caller may leave out is an \<open>option\<close> (\<open>None\<close> is Python's \<^verbatim>\<open>None\<close>).
\<close>

record 'a Entity =
  entity_id :: string
  entity_created_at :: "datetime option"
  entity_updated_at :: "datetime option"
  asset :: 'a

record ('a, 'r) Edge =
  edge_id :: "string option"
  edge_created_at :: "datetime option"
  edge_updated_at :: "datetime option"
  relation :: 'r
  from_entity :: "'a Entity"
  to_entity :: "'a Entity"

record ('a, 'p) EntityTag =
  etag_id :: "string option"
  etag_created_at :: "datetime option"
  etag_updated_at :: "datetime option"
  etag_entity :: "'a Entity"
  etag_prop :: "'p option"

record ('a, 'r, 'p) EdgeTag =
  gtag_id :: "string option"
  gtag_created_at :: "datetime option"
  gtag_updated_at :: "datetime option"
  gtag_edge :: "('a, 'r) Edge"
  gtag_prop :: "'p option"

datatype ('a, 'r, 'p) event =
    EdgeInserted "('a, 'r) Edge"
  | EdgeUpdated "('a, 'r) Edge" "('a, 'r) Edge"          \<comment> \<open>\<^verbatim>\<open>old_edge\<close>, \<^verbatim>\<open>edge\<close>\<close>
  | EdgeUntouched "('a, 'r) Edge"
  | EdgeDeleted "('a, 'r) Edge"
  | EntityTagInserted "('a, 'p) EntityTag"
  | EntityTagUpdated "('a, 'p) EntityTag" "('a, 'p) EntityTag"
  | EntityTagUntouched "('a, 'p) EntityTag"
  | EntityTagDeleted "('a, 'p) EntityTag"
  | EdgeTagInserted "('a, 'r, 'p) EdgeTag"
  | EdgeTagUpdated "('a, 'r, 'p) EdgeTag" "('a, 'r, 'p) EdgeTag"
  | EdgeTagUntouched "('a, 'r, 'p) EdgeTag"
  | EdgeTagDeleted "('a, 'r, 'p) EdgeTag"

subsection \<open>The graph store\<close>

text \<open>
  What the store holds under a timestamp key: nothing, a \<^verbatim>\<open>DateTime\<close> (what the package
  writes), another temporal value (a date or a time, which also has \<^verbatim>\<open>to_native\<close>), or a
  value that is no temporal at all. The store is shared, so a decoder may meet any of
  them.
\<close>

datatype stored_time = Absent | DateTime datetime | OtherTemporal datetime | NotTemporal

text \<open>
  What \<^verbatim>\<open>CREATE ... $props\<close> and \<^verbatim>\<open>SET x = $props\<close> keep of a dictionary: a key whose
  value is \<^verbatim>\<open>None\<close> is left out.
\<close>

definition store_fields :: "'v pydict \<Rightarrow> 'v fields" where
  "store_fields d = List.map_filter (\<lambda>(k, v). map_option (Pair k) v) d"

definition store_time :: "datetime option \<Rightarrow> stored_time" where
  "store_time t = (case t of None \<Rightarrow> Absent | Some c \<Rightarrow> DateTime c)"

text \<open>
  A relationship has a type (given at \<^verbatim>\<open>CREATE\<close>, never changed by \<^verbatim>\<open>SET\<close>), its two end
  nodes, named by their \<^verbatim>\<open>entity_id\<close>, and the properties \<^verbatim>\<open>to_dict\<close> wrote: \<^verbatim>\<open>edge_id\<close>,
  \<^verbatim>\<open>created_at\<close>, \<^verbatim>\<open>updated_at\<close>, \<^verbatim>\<open>etype\<close> and the flattened relation fields. A key
  that is missing on the stored item is \<open>None\<close> or \<open>Absent\<close>.
  A tag node has its second label (the property type, given at \<^verbatim>\<open>CREATE\<close>) and the
  properties \<^verbatim>\<open>tag_id\<close>, \<^verbatim>\<open>entity_id\<close> or \<^verbatim>\<open>edge_id\<close>, \<^verbatim>\<open>created_at\<close>, \<^verbatim>\<open>updated_at\<close>,
  \<^verbatim>\<open>ttype\<close> and the flattened property fields. The payload keys are taken to differ
  from these bookkeeping keys.
  Entity nodes are kept decoded; their \<^verbatim>\<open>entity_id\<close> is taken to be unique.
\<close>

record 'v relationship =
  r_type :: string
  r_from :: string
  r_to :: string
  r_edge_id :: "string option"
  r_created_at :: stored_time
  r_updated_at :: stored_time
  r_etype :: "string option"
  r_fields :: "'v fields"

record 'v tag_node =
  n_label :: string
  n_tag_id :: "string option"
  n_owner_id :: "string option"
  n_created_at :: stored_time
  n_updated_at :: stored_time
  n_ttype :: "string option"
  n_fields :: "'v fields"

record ('a, 'v) graph =
  entity_nodes :: "'a Entity list"
  relationships :: "'v relationship list"
  entity_tag_nodes :: "'v tag_node list"
  edge_tag_nodes :: "'v tag_node list"

text \<open>
  \<^verbatim>\<open>Result.single\<close> as a result transformer: \<^verbatim>\<open>None\<close> for no record, the first record
  otherwise. Without a transformer \<^verbatim>\<open>execute_query\<close> returns the triple
  \<^verbatim>\<open>(records, summary, keys)\<close>, which the list-returning functions unpack; of the triple
  only the records are kept here.
\<close>

definition single :: "'x list \<Rightarrow> 'x option" where
  "single records = (case records of [] \<Rightarrow> None | x # _ \<Rightarrow> Some x)"

datatype 'x eager_result = EagerResult "'x list"

text \<open>
  The triple is a named tuple: it has no method \<^verbatim>\<open>get\<close>, so \<^verbatim>\<open>result.get("p")\<close> on it
  raises \<^verbatim>\<open>AttributeError\<close>, whatever the records are.
\<close>

definition eager_get :: "'x eager_result \<Rightarrow> string \<Rightarrow> error + 'x" where
  "eager_get result key = Inl AttributeError"

text \<open>
  \<^verbatim>\<open>r.updated_at >= localDateTime(since)\<close>: a missing \<^verbatim>\<open>updated_at\<close>, or one of another
  type, compares to null.
\<close>

definition touched_since :: "datetime option \<Rightarrow> stored_time \<Rightarrow> bool" where
  "touched_since since updated =
     (case since of None \<Rightarrow> True
      | Some s \<Rightarrow> (case updated of DateTime u \<Rightarrow> s \<le> u | _ \<Rightarrow> False))"

text \<open>
  The two ways the decoders read a timestamp. \<^verbatim>\<open>_relationship_to_edge\<close> asks
  \<^verbatim>\<open>isinstance(x, DateTime)\<close> and raises otherwise. The tag decoders only ask for
  \<^verbatim>\<open>None\<close> and then call \<^verbatim>\<open>x.to_native()\<close>, which a value that is no temporal lacks.
\<close>

definition expect_datetime :: "string \<Rightarrow> stored_time \<Rightarrow> error + datetime" where
  "expect_datetime key x =
     (case x of DateTime c \<Rightarrow> Inr c | _ \<Rightarrow> Inl (ExtractError key))"

definition to_native :: "string \<Rightarrow> stored_time \<Rightarrow> error + datetime" where
  "to_native key x =
     (case x of
        Absent \<Rightarrow> Inl (ExtractError key)
      | DateTime c \<Rightarrow> Inr c
      | OtherTemporal c \<Rightarrow> Inr c
      | NotTemporal \<Rightarrow> Inl AttributeError)"

subsection \<open>The repository object\<close>

record ('a, 'r, 'p, 'v) NeoRepository =
  db :: "('a, 'v) graph"
  events_buffer :: "('a, 'r, 'p) event list"
  enforce_taxonomy :: bool
  emit_events :: bool

text \<open>
  \<^verbatim>\<open>__init__(uri, auth, enforce_taxonomy=True, emit_events=False)\<close> followed by
  \<^verbatim>\<open>__enter__\<close>: \<open>g\<close> is the database the driver connects to; an argument left out is
  \<open>None\<close>.
\<close>

definition init ::
  "('a, 'v) graph \<Rightarrow> bool option \<Rightarrow> bool option \<Rightarrow> ('a, 'r, 'p, 'v) NeoRepository" where
  "init g enforce emit =
     \<lparr> db = g,
       events_buffer = [],
       enforce_taxonomy = (case enforce of None \<Rightarrow> True | Some b \<Rightarrow> b),
       emit_events = (case emit of None \<Rightarrow> False | Some b \<Rightarrow> b) \<rparr>"

definition emit ::
  "('a, 'r, 'p, 'v) NeoRepository \<Rightarrow> ('a, 'r, 'p) event \<Rightarrow> ('a, 'r, 'p, 'v) NeoRepository" where
  "emit self ev =
     (if emit_events self then self\<lparr>events_buffer := events_buffer self @ [ev]\<rparr> else self)"

definition flush_events ::
  "('a, 'r, 'p, 'v) NeoRepository \<Rightarrow>
   ('a, 'r, 'p, 'v) NeoRepository \<times> ('a, 'r, 'p) event list" where
  "flush_events self = (self\<lparr>events_buffer := []\<rparr>, events_buffer self)"

text \<open>
  The values that \<^verbatim>\<open>uuid4()\<close> and \<^verbatim>\<open>datetime.now()\<close> return during one operation, in the
  order of the calls: an insert reads the clock twice (\<^verbatim>\<open>created_at\<close>, then
  \<^verbatim>\<open>updated_at\<close>), an update once.
\<close>

record env =
  uuid4 :: string
  now_1 :: datetime
  now_2 :: datetime

subsection \<open>Entities by id\<close>

text \<open>
  Modelled from the spec: \<^verbatim>\<open>find_entity_by_id\<close> lives in
  \<^verbatim>\<open>asset_store/repository/neo4j/entity.py\<close>, which is not among the sources. By section
  4.5 and section 7 of the specification it returns the stored entity with that id and
  fails with \<^verbatim>\<open>NotFound\<close> (\<^verbatim>\<open>"the entity with ID ... was not found"\<close> in the tests) when
  there is none.
\<close>

definition find_entity_by_id ::
  "('a, 'r, 'p, 'v) NeoRepository \<Rightarrow> string \<Rightarrow> error + 'a Entity" where
  "find_entity_by_id self i =
     (case find (\<lambda>e. entity_id e = i) (entity_nodes (db self)) of
        None \<Rightarrow> Inl EntityNotFound
      | Some e \<Rightarrow> Inr e)"

subsection \<open>\<^verbatim>\<open>edge.py\<close>\<close>

text \<open>
  \<^verbatim>\<open>_relationship_to_edge\<close>: every raise of the source is a branch. The identifier and
  the discriminator must be there, both timestamps must be \<^verbatim>\<open>DateTime\<close> values, the
  discriminator must name a relation type, and the library must rebuild the relation.
\<close>

definition relationship_to_edge ::
  "('a, 'r, 'p, 'v) asset_model \<Rightarrow> 'v relationship \<Rightarrow> 'a Entity \<Rightarrow> 'a Entity \<Rightarrow>
   error + ('a, 'r) Edge" where
  "relationship_to_edge M rel from_e to_e =
     (case r_edge_id rel of
        None \<Rightarrow> Inl (ExtractError ''edge_id'')
      | Some i \<Rightarrow>
     (case expect_datetime ''created_at'' (r_created_at rel) of
        Inl e \<Rightarrow> Inl e
      | Inr c \<Rightarrow>
     (case expect_datetime ''updated_at'' (r_updated_at rel) of
        Inl e \<Rightarrow> Inl e
      | Inr u \<Rightarrow>
     (case r_etype rel of
        None \<Rightarrow> Inl (ExtractError ''etype'')
      | Some t \<Rightarrow>
          if \<not> is_relation_type M t then Inl ValueError
          else
            (case rel_from_dict M t (r_fields rel) of
               None \<Rightarrow> Inl DecodeError
             | Some x \<Rightarrow>
                 Inr \<lparr> edge_id = Some i, edge_created_at = Some c, edge_updated_at = Some u,
                       relation = x, from_entity = from_e, to_entity = to_e \<rparr>)))))"

text \<open>
  \<^verbatim>\<open>MATCH (:Entity {entity_id: $id}) -[r]-> (to:Entity) [WHERE r.updated_at >= ...]
  RETURN r, to.entity_id AS tid\<close>, and the mirror image for incoming relationships.
\<close>

definition match_outgoing ::
  "('a, 'v) graph \<Rightarrow> string \<Rightarrow> datetime option \<Rightarrow> 'v relationship list" where
  "match_outgoing g i since =
     filter (\<lambda>r. r_from r = i \<and> touched_since since (r_updated_at r)) (relationships g)"

definition match_incoming ::
  "('a, 'v) graph \<Rightarrow> string \<Rightarrow> datetime option \<Rightarrow> 'v relationship list" where
  "match_incoming g i since =
     filter (\<lambda>r. r_to r = i \<and> touched_since since (r_updated_at r)) (relationships g)"

text \<open>The label filter of both traversals: no labels selects every relationship.\<close>

definition label_selected :: "string list \<Rightarrow> 'v relationship \<Rightarrow> bool" where
  "label_selected labels r =
     (if labels = [] then True
      else list_ex (\<lambda>l. casefold l = casefold (r_type r)) labels)"

fun outgoing_loop ::
  "('a, 'r, 'p, 'v) asset_model \<Rightarrow> ('a, 'r, 'p, 'v) NeoRepository \<Rightarrow> 'a Entity \<Rightarrow>
   string list \<Rightarrow> 'v relationship list \<Rightarrow> ('a, 'r) Edge list \<Rightarrow> error + ('a, 'r) Edge list" where
  "outgoing_loop M self entity labels [] results = Inr results"
| "outgoing_loop M self entity labels (r # records) results =
     (if \<not> label_selected labels r then outgoing_loop M self entity labels records results
      else
        (case find_entity_by_id self (r_to r) of
           Inl e \<Rightarrow> Inl e
         | Inr to_e \<Rightarrow>
             (case relationship_to_edge M r entity to_e of
                Inl e \<Rightarrow> outgoing_loop M self entity labels records results
              | Inr edge \<Rightarrow> outgoing_loop M self entity labels records (results @ [edge]))))"

definition outgoing_edges ::
  "('a, 'r, 'p, 'v) asset_model \<Rightarrow> ('a, 'r, 'p, 'v) NeoRepository \<Rightarrow> 'a Entity \<Rightarrow>
   datetime option \<Rightarrow> string list \<Rightarrow> error + ('a, 'r) Edge list" where
  "outgoing_edges M self entity since labels =
     outgoing_loop M self entity labels (match_outgoing (db self) (entity_id entity) since) []"

text \<open>
  \<^verbatim>\<open>incoming_edges\<close> differs in one place: a relationship that does not decode raises,
  where \<^verbatim>\<open>outgoing_edges\<close> skips it.
\<close>

fun incoming_loop ::
  "('a, 'r, 'p, 'v) asset_model \<Rightarrow> ('a, 'r, 'p, 'v) NeoRepository \<Rightarrow> 'a Entity \<Rightarrow>
   string list \<Rightarrow> 'v relationship list \<Rightarrow> ('a, 'r) Edge list \<Rightarrow> error + ('a, 'r) Edge list" where
  "incoming_loop M self entity labels [] results = Inr results"
| "incoming_loop M self entity labels (r # records) results =
     (if \<not> label_selected labels r then incoming_loop M self entity labels records results
      else
        (case find_entity_by_id self (r_from r) of
           Inl e \<Rightarrow> Inl e
         | Inr from_e \<Rightarrow>
             (case relationship_to_edge M r from_e entity of
                Inl e \<Rightarrow> Inl e
              | Inr edge \<Rightarrow> incoming_loop M self entity labels records (results @ [edge]))))"

definition incoming_edges ::
  "('a, 'r, 'p, 'v) asset_model \<Rightarrow> ('a, 'r, 'p, 'v) NeoRepository \<Rightarrow> 'a Entity \<Rightarrow>
   datetime option \<Rightarrow> string list \<Rightarrow> error + ('a, 'r) Edge list" where
  "incoming_edges M self entity since labels =
     incoming_loop M self entity labels (match_incoming (db self) (entity_id entity) since) []"

text \<open>
  \<^verbatim>\<open>MATCH (from:Entity) -[r {edge_id: $id}]-> (to:Entity) RETURN r, fid, tid\<close> under
  \<^verbatim>\<open>Result.single\<close>. The three values of a returned record are always bound, so the
  "record value is empty" raises have no branch.
\<close>

definition find_edge_by_id ::
  "('a, 'r, 'p, 'v) asset_model \<Rightarrow> ('a, 'r, 'p, 'v) NeoRepository \<Rightarrow> string \<Rightarrow>
   error + ('a, 'r) Edge" where
  "find_edge_by_id M self i =
     (case single (filter (\<lambda>r. r_edge_id r = Some i) (relationships (db self))) of
        None \<Rightarrow> Inl EdgeNotFound
      | Some r \<Rightarrow>
          (case find_entity_by_id self (r_from r) of
             Inl e \<Rightarrow> Inl e
           | Inr from_e \<Rightarrow>
               (case find_entity_by_id self (r_to r) of
                  Inl e \<Rightarrow> Inl e
                | Inr to_e \<Rightarrow> relationship_to_edge M r from_e to_e)))"

text \<open>
  The duplicate scan runs inside \<^verbatim>\<open>try\<close>/\<^verbatim>\<open>except\<close>: a failing traversal is "no
  duplicate". The lookup by an explicit id is outside it and propagates.
\<close>

definition find_existing_edge ::
  "('a, 'r, 'p, 'v) asset_model \<Rightarrow> ('a, 'r, 'p, 'v) NeoRepository \<Rightarrow> ('a, 'r) Edge \<Rightarrow>
   error + ('a, 'r) Edge option" where
  "find_existing_edge M self edge =
     (let scan =
        (case outgoing_edges M self (from_entity edge) None [] of
           Inl e \<Rightarrow> Inr None
         | Inr outs \<Rightarrow>
             Inr (find (\<lambda>out. entity_id (to_entity edge) = entity_id (to_entity out)
                              \<and> equals M (relation edge) (relation out)) outs))
      in case edge_id edge of
           None \<Rightarrow> scan
         | Some i \<Rightarrow>
             if i = [] then scan
             else (case find_edge_by_id M self i of
                     Inl e \<Rightarrow> Inl e
                   | Inr old \<Rightarrow> Inr (Some old)))"

text \<open>
  Modelled from the spec: \<^verbatim>\<open>Edge.to_dict\<close> of \<^verbatim>\<open>asset_store.types\<close> is not among the
  sources; by section 6 the persisted keys are \<^verbatim>\<open>edge_id, created_at, updated_at, etype\<close>
  and the flattened relation fields. \<open>edge_props M edge r\<close> is \<^verbatim>\<open>SET r = $props\<close> with
  \<^verbatim>\<open>props = edge.to_dict()\<close>: every property of \<open>r\<close> is replaced, its type and end nodes
  stay.
\<close>

definition edge_props ::
  "('a, 'r, 'p, 'v) asset_model \<Rightarrow> ('a, 'r) Edge \<Rightarrow> 'v relationship \<Rightarrow> 'v relationship" where
  "edge_props M edge r =
     r\<lparr> r_edge_id := edge_id edge,
        r_created_at := store_time (edge_created_at edge),
        r_updated_at := store_time (edge_updated_at edge),
        r_etype := Some (relation_type M (relation edge)),
        r_fields := store_fields (rel_to_dict M (relation edge)) \<rparr>"

text \<open>
  Modelled from the spec: \<^verbatim>\<open>Edge.label\<close> of \<^verbatim>\<open>asset_store.types\<close> is not among the
  sources; by section 6 the relationship type is the relation label in upper case (the
  earlier \<^verbatim>\<open>asset_db/types/edge.py\<close> has \<^verbatim>\<open>self.relation.label.upper()\<close>).
\<close>

definition edge_label :: "('a, 'r, 'p, 'v) asset_model \<Rightarrow> ('a, 'r) Edge \<Rightarrow> string" where
  "edge_label M edge = upper (label M (relation edge))"

text \<open>
  Both statements of \<^verbatim>\<open>create_edge\<close> are f-strings with the label and the two entity
  ids pasted in; this is what the text needs for the server to read it as written.
\<close>

definition edge_statement_ok :: "('a, 'r, 'p, 'v) asset_model \<Rightarrow> ('a, 'r) Edge \<Rightarrow> bool" where
  "edge_statement_ok M edge =
     (cypher_name (edge_label M edge)
      \<and> double_quoted (entity_id (from_entity edge))
      \<and> double_quoted (entity_id (to_entity edge)))"

text \<open>
  \<^verbatim>\<open>MATCH (from:Entity {entity_id: "..."}) MATCH (to:Entity {entity_id: "..."})
  CREATE (from) -[r:LABEL $props]-> (to) RETURN r, from, to\<close>: a text the server does not
  read raises; otherwise nothing is created, and no record comes back, unless both end
  nodes exist.
\<close>

definition create_relationship ::
  "('a, 'r, 'p, 'v) asset_model \<Rightarrow> ('a, 'v) graph \<Rightarrow> ('a, 'r) Edge \<Rightarrow>
   error + ('a, 'v) graph \<times> 'v relationship list" where
  "create_relationship M g edge =
     (if \<not> edge_statement_ok M edge then Inl CypherSyntaxError
      else
        (let r = edge_props M edge
                   \<lparr> r_type = edge_label M edge,
                     r_from = entity_id (from_entity edge),
                     r_to = entity_id (to_entity edge),
                     r_edge_id = None, r_created_at = Absent, r_updated_at = Absent,
                     r_etype = None, r_fields = [] \<rparr>
         in if list_ex (\<lambda>e. entity_id e = entity_id (from_entity edge)) (entity_nodes g)
               \<and> list_ex (\<lambda>e. entity_id e = entity_id (to_entity edge)) (entity_nodes g)
            then Inr (g\<lparr>relationships := relationships g @ [r]\<rparr>, [r])
            else Inr (g, [])))"

text \<open>
  \<^verbatim>\<open>MATCH (from ...) MATCH (to ...) MATCH (from) -[r:LABEL]-> (to) SET r = $props
  RETURN r, from, to\<close>: every relationship of that type between the two nodes is
  overwritten; the statement does not name the edge id.
\<close>

definition set_matches ::
  "('a, 'r, 'p, 'v) asset_model \<Rightarrow> ('a, 'r) Edge \<Rightarrow> 'v relationship \<Rightarrow> bool" where
  "set_matches M edge r =
     (r_from r = entity_id (from_entity edge) \<and> r_to r = entity_id (to_entity edge)
      \<and> r_type r = edge_label M edge)"

definition set_relationship ::
  "('a, 'r, 'p, 'v) asset_model \<Rightarrow> ('a, 'v) graph \<Rightarrow> ('a, 'r) Edge \<Rightarrow>
   error + ('a, 'v) graph \<times> 'v relationship list" where
  "set_relationship M g edge =
     (if \<not> edge_statement_ok M edge then Inl CypherSyntaxError
      else
        Inr (g\<lparr>relationships :=
                 map (\<lambda>r. if set_matches M edge r then edge_props M edge r else r)
                   (relationships g)\<rparr>,
             map (edge_props M edge) (filter (set_matches M edge) (relationships g))))"

text \<open>The validator call of \<^verbatim>\<open>create_edge\<close>, on the types and label of the submitted edge.\<close>

definition taxonomy_valid :: "('a, 'r, 'p, 'v) asset_model \<Rightarrow> ('a, 'r) Edge \<Rightarrow> bool" where
  "taxonomy_valid M edge =
     valid_relationship M
       (asset_type M (asset (from_entity edge)))
       (label M (relation edge))
       (relation_type M (relation edge))
       (asset_type M (asset (to_entity edge)))"

definition create_edge ::
  "('a, 'r, 'p, 'v) asset_model \<Rightarrow> ('a, 'r, 'p, 'v) NeoRepository \<Rightarrow> env \<Rightarrow> ('a, 'r) Edge \<Rightarrow>
   ('a, 'r, 'p, 'v) NeoRepository \<times> (error + ('a, 'r) Edge)" where
  "create_edge M self ev edge =
     (if enforce_taxonomy self \<and> \<not> taxonomy_valid M edge
      then (self, Inl TaxonomyViolation)
      else
        (case find_existing_edge M self edge of
           Inl e \<Rightarrow> (self, Inl e)
         | Inr None \<Rightarrow>
             (let new_edge =
                \<lparr> edge_id = Some (uuid4 ev),
                  edge_created_at = Some (now_1 ev),
                  edge_updated_at = Some (now_2 ev),
                  relation = relation edge,
                  from_entity = from_entity edge,
                  to_entity = to_entity edge \<rparr>
              in case create_relationship M (db self) new_edge of
                   Inl e \<Rightarrow> (self, Inl e)
                 | Inr (g, records) \<Rightarrow>
                     (case single records of
                        None \<Rightarrow> (self\<lparr>db := g\<rparr>, Inl NoRecordsReturned)
                      | Some record \<Rightarrow>
                          (emit (self\<lparr>db := g\<rparr>) (EdgeInserted new_edge), Inr new_edge)))
         | Inr (Some old_edge) \<Rightarrow>
             (if rel_is_fresher_than M (relation edge) (relation old_edge) then
                (let new_edge =
                   \<lparr> edge_id = edge_id old_edge,
                     edge_created_at = edge_created_at old_edge,
                     edge_updated_at = Some (now_1 ev),
                     relation = rel_override_with M (relation old_edge) (relation edge),
                     from_entity = from_entity old_edge,
                     to_entity = to_entity old_edge \<rparr>
                 in case set_relationship M (db self) new_edge of
                      Inl e \<Rightarrow> (self, Inl e)
                    | Inr (g, records) \<Rightarrow>
                        (case single records of
                           None \<Rightarrow> (self\<lparr>db := g\<rparr>, Inl NoRecordsReturned)
                         | Some record \<Rightarrow>
                             (emit (self\<lparr>db := g\<rparr>) (EdgeUpdated old_edge new_edge),
                              Inr new_edge)))
              else (emit self (EdgeUntouched old_edge), Inr old_edge))))"

definition create_relation ::
  "('a, 'r, 'p, 'v) asset_model \<Rightarrow> ('a, 'r, 'p, 'v) NeoRepository \<Rightarrow> env \<Rightarrow> 'r \<Rightarrow>
   'a Entity \<Rightarrow> 'a Entity \<Rightarrow> ('a, 'r, 'p, 'v) NeoRepository \<times> (error + ('a, 'r) Edge)" where
  "create_relation M self ev rel from_e to_e =
     create_edge M self ev
       \<lparr> edge_id = None, edge_created_at = None, edge_updated_at = None,
         relation = rel, from_entity = from_e, to_entity = to_e \<rparr>"

text \<open>
  The statement of \<^verbatim>\<open>delete_edge\<close> is written as a plain string, not an f-string, so its
  doubled braces reach the server as they are:
  \<^verbatim>\<open>MATCH ()-[r {{ edge_id: $id }}]->() DELETE r\<close>. A property map opens with one brace
  followed by a key; the server rejects the text and the driver raises. Every other
  plain-string statement of the package has single braces.
\<close>

definition delete_relationship ::
  "('a, 'v) graph \<Rightarrow> string \<Rightarrow> error + ('a, 'v) graph" where
  "delete_relationship g i = Inl CypherSyntaxError"

definition delete_edge ::
  "('a, 'r, 'p, 'v) asset_model \<Rightarrow> ('a, 'r, 'p, 'v) NeoRepository \<Rightarrow> string \<Rightarrow>
   ('a, 'r, 'p, 'v) NeoRepository \<times> (error + ('a, 'r) Edge)" where
  "delete_edge M self i =
     (case find_edge_by_id M self i of
        Inl e \<Rightarrow> (self, Inl e)
      | Inr edge \<Rightarrow>
          (case delete_relationship (db self) i of
             Inl e \<Rightarrow> (self, Inl e)
           | Inr g \<Rightarrow> (emit (self\<lparr>db := g\<rparr>) (EdgeDeleted edge), Inr edge)))"

subsection \<open>\<^verbatim>\<open>entity_tag.py\<close>\<close>

text \<open>
  \<^verbatim>\<open>_node_to_entity_tag\<close>: the identifier, the owner, both timestamps and the
  discriminator must be there, the owner must be a stored entity, the timestamps must
  have \<^verbatim>\<open>to_native\<close>, the discriminator must name a property type, and the library must
  rebuild the property. The second missing timestamp is reported under the name of the
  first, as in the source.
\<close>

definition node_to_entity_tag ::
  "('a, 'r, 'p, 'v) asset_model \<Rightarrow> ('a, 'r, 'p, 'v) NeoRepository \<Rightarrow> 'v tag_node \<Rightarrow>
   error + ('a, 'p) EntityTag" where
  "node_to_entity_tag M self node =
     (case n_tag_id node of
        None \<Rightarrow> Inl (ExtractError ''tag_id'')
      | Some i \<Rightarrow>
     (case n_owner_id node of
        None \<Rightarrow> Inl (ExtractError ''entity_id'')
      | Some oid \<Rightarrow>
     (case find_entity_by_id self oid of
        Inl e \<Rightarrow> Inl e
      | Inr entity \<Rightarrow>
     (case to_native ''created_at'' (n_created_at node) of
        Inl e \<Rightarrow> Inl e
      | Inr c \<Rightarrow>
     (case to_native ''created_at'' (n_updated_at node) of
        Inl e \<Rightarrow> Inl e
      | Inr u \<Rightarrow>
     (case n_ttype node of
        None \<Rightarrow> Inl (ExtractError ''ttype'')
      | Some t \<Rightarrow>
          if \<not> is_property_type M t then Inl ValueError
          else
            (case prop_from_dict M t (n_fields node) of
               None \<Rightarrow> Inl DecodeError
             | Some p \<Rightarrow>
                 Inr \<lparr> etag_id = Some i, etag_created_at = Some c, etag_updated_at = Some u,
                       etag_entity = entity, etag_prop = Some p \<rparr>)))))))"

text \<open>
  \<^verbatim>\<open>MATCH (p:EntityTag:TYPE) WHERE p.k1 = $k1 AND ... [AND p.updated_at >= ...] RETURN p\<close>,
  with one comparison for every key of \<^verbatim>\<open>prop.to_dict()\<close> and the dictionary as the
  parameters. The statement names the property type and the property's fields, and no
  owner. A comparison with a missing property or with a \<^verbatim>\<open>None\<close> parameter is not true.
  The text is read when the type and the keys are bare names and there is at least one
  key.
\<close>

definition fields_match :: "'v pydict \<Rightarrow> 'v fields \<Rightarrow> bool" where
  "fields_match props f = list_all (\<lambda>(k, v). v \<noteq> None \<and> map_of f k = v) props"

definition content_statement_ok :: "('a, 'r, 'p, 'v) asset_model \<Rightarrow> 'p \<Rightarrow> bool" where
  "content_statement_ok M prop =
     (cypher_name (property_type M prop)
      \<and> prop_to_dict M prop \<noteq> []
      \<and> list_all (\<lambda>(k, v). cypher_name k) (prop_to_dict M prop))"

definition match_tags_by_content ::
  "('a, 'r, 'p, 'v) asset_model \<Rightarrow> 'v tag_node list \<Rightarrow> 'p \<Rightarrow> datetime option \<Rightarrow>
   error + 'v tag_node list" where
  "match_tags_by_content M nodes prop since =
     (if \<not> content_statement_ok M prop then Inl CypherSyntaxError
      else
        Inr (filter (\<lambda>n. n_label n = property_type M prop
                         \<and> fields_match (prop_to_dict M prop) (n_fields n)
                         \<and> touched_since since (n_updated_at n)) nodes))"

fun entity_tags_loop ::
  "('a, 'r, 'p, 'v) asset_model \<Rightarrow> ('a, 'r, 'p, 'v) NeoRepository \<Rightarrow> 'v tag_node list \<Rightarrow>
   ('a, 'p) EntityTag list \<Rightarrow> error + ('a, 'p) EntityTag list" where
  "entity_tags_loop M self [] tags = Inr tags"
| "entity_tags_loop M self (node # records) tags =
     (case node_to_entity_tag M self node of
        Inl e \<Rightarrow> Inl e
      | Inr tag \<Rightarrow> entity_tags_loop M self records (tags @ [tag]))"

definition find_entity_tags_by_content ::
  "('a, 'r, 'p, 'v) asset_model \<Rightarrow> ('a, 'r, 'p, 'v) NeoRepository \<Rightarrow> 'p \<Rightarrow>
   datetime option \<Rightarrow> error + ('a, 'p) EntityTag list" where
  "find_entity_tags_by_content M self prop since =
     (case match_tags_by_content M (entity_tag_nodes (db self)) prop since of
        Inl e \<Rightarrow> Inl e
      | Inr records \<Rightarrow> entity_tags_loop M self records [])"

text \<open>
  \<^verbatim>\<open>find_entity_tag_by_id\<close> calls \<^verbatim>\<open>execute_query\<close> without a result transformer and then
  treats the result as a single record. The result is the triple, so it is never
  \<^verbatim>\<open>None\<close>, and \<^verbatim>\<open>result.get("p")\<close> raises.
\<close>

definition find_entity_tag_by_id ::
  "('a, 'r, 'p, 'v) asset_model \<Rightarrow> ('a, 'r, 'p, 'v) NeoRepository \<Rightarrow> string \<Rightarrow>
   error + ('a, 'p) EntityTag" where
  "find_entity_tag_by_id M self i =
     (let result =
        Some (EagerResult (filter (\<lambda>n. n_tag_id n = Some i) (entity_tag_nodes (db self))))
      in case result of
           None \<Rightarrow> Inl TagNotFound
         | Some res \<Rightarrow>
             (case eager_get res ''p'' of
                Inl e \<Rightarrow> Inl e
              | Inr node \<Rightarrow> node_to_entity_tag M self node))"

text \<open>
  A tag without a property cannot reach the content search (\<^verbatim>\<open>create_entity_tag\<close> rejects
  it first); \<^verbatim>\<open>None.to_dict()\<close> would raise.
\<close>

definition find_existing_entity_tag ::
  "('a, 'r, 'p, 'v) asset_model \<Rightarrow> ('a, 'r, 'p, 'v) NeoRepository \<Rightarrow> ('a, 'p) EntityTag \<Rightarrow>
   error + ('a, 'p) EntityTag option" where
  "find_existing_entity_tag M self tag =
     (let by_content =
        (case etag_prop tag of
           None \<Rightarrow> Inl AttributeError
         | Some p \<Rightarrow>
             (case find_entity_tags_by_content M self p None of
                Inl e \<Rightarrow> Inl e
              | Inr findings \<Rightarrow>
                  Inr (case findings of [] \<Rightarrow> None | first # _ \<Rightarrow> Some first)))
      in case etag_id tag of
           None \<Rightarrow> by_content
         | Some i \<Rightarrow>
             if i = [] then by_content
             else (case find_entity_tag_by_id M self i of
                     Inl e \<Rightarrow> Inl e
                   | Inr old \<Rightarrow> Inr (Some old)))"

text \<open>
  Modelled from the spec: \<^verbatim>\<open>EntityTag.to_dict\<close> and \<^verbatim>\<open>EdgeTag.to_dict\<close> of
  \<^verbatim>\<open>asset_store.types\<close> are not among the sources; by section 6 the persisted keys are
  \<^verbatim>\<open>tag_id\<close>, \<^verbatim>\<open>entity_id\<close> or \<^verbatim>\<open>edge_id\<close>, \<^verbatim>\<open>created_at, updated_at, ttype\<close> and the
  flattened property fields. \<open>tag_props M i owner c u p n\<close> is \<^verbatim>\<open>SET n = $props\<close>: every
  property of the node is replaced, its labels stay.
\<close>

definition tag_props ::
  "('a, 'r, 'p, 'v) asset_model \<Rightarrow> string option \<Rightarrow> string option \<Rightarrow> datetime option \<Rightarrow>
   datetime option \<Rightarrow> 'p \<Rightarrow> 'v tag_node \<Rightarrow> 'v tag_node" where
  "tag_props M i owner c u p n =
     n\<lparr> n_tag_id := i, n_owner_id := owner,
        n_created_at := store_time c, n_updated_at := store_time u,
        n_ttype := Some (property_type M p),
        n_fields := store_fields (prop_to_dict M p) \<rparr>"

definition entity_tag_props ::
  "('a, 'r, 'p, 'v) asset_model \<Rightarrow> ('a, 'p) EntityTag \<Rightarrow> 'p \<Rightarrow> 'v tag_node \<Rightarrow> 'v tag_node" where
  "entity_tag_props M tag p n =
     tag_props M (etag_id tag) (Some (entity_id (etag_entity tag)))
       (etag_created_at tag) (etag_updated_at tag) p n"

text \<open>
  \<^verbatim>\<open>CREATE (n:EntityTag:TYPE $props) RETURN n\<close>: one node and one record, when the
  property type pasted after the colon is a bare name.
\<close>

definition new_tag_node :: "('a, 'r, 'p, 'v) asset_model \<Rightarrow> 'p \<Rightarrow> 'v tag_node" where
  "new_tag_node M p =
     \<lparr> n_label = property_type M p, n_tag_id = None, n_owner_id = None,
       n_created_at = Absent, n_updated_at = Absent, n_ttype = None, n_fields = [] \<rparr>"

definition create_tag_node ::
  "('a, 'r, 'p, 'v) asset_model \<Rightarrow> 'p \<Rightarrow> ('v tag_node \<Rightarrow> 'v tag_node) \<Rightarrow> 'v tag_node list \<Rightarrow>
   error + 'v tag_node list \<times> 'v tag_node list" where
  "create_tag_node M p props nodes =
     (if \<not> cypher_name (property_type M p) then Inl CypherSyntaxError
      else Inr (nodes @ [props (new_tag_node M p)], [props (new_tag_node M p)]))"

text \<open>
  \<^verbatim>\<open>MATCH (n:EntityTag {tag_id: $tid}) SET n = $props RETURN n\<close>; a null \<^verbatim>\<open>$tid\<close> matches
  no node.
\<close>

definition set_tag_nodes ::
  "string option \<Rightarrow> ('v tag_node \<Rightarrow> 'v tag_node) \<Rightarrow> 'v tag_node list \<Rightarrow>
   'v tag_node list \<times> 'v tag_node list" where
  "set_tag_nodes tid props nodes =
     (map (\<lambda>n. if tid \<noteq> None \<and> n_tag_id n = tid then props n else n) nodes,
      map props (filter (\<lambda>n. tid \<noteq> None \<and> n_tag_id n = tid) nodes))"

text \<open>
  A stored tag always decodes with its property; \<^verbatim>\<open>is_fresher_than(None)\<close> is given the
  error Python raises on an attribute of \<^verbatim>\<open>None\<close>. The update branch does not look at
  the record the statement returns.
\<close>

definition create_entity_tag ::
  "('a, 'r, 'p, 'v) asset_model \<Rightarrow> ('a, 'r, 'p, 'v) NeoRepository \<Rightarrow> env \<Rightarrow>
   ('a, 'p) EntityTag \<Rightarrow> ('a, 'r, 'p, 'v) NeoRepository \<times> (error + ('a, 'p) EntityTag)" where
  "create_entity_tag M self ev tag =
     (case etag_prop tag of
        None \<Rightarrow> (self, Inl MalformedTag)
      | Some p \<Rightarrow>
        (case find_existing_entity_tag M self tag of
           Inl e \<Rightarrow> (self, Inl e)
         | Inr None \<Rightarrow>
             (let new_tag =
                \<lparr> etag_id = Some (uuid4 ev),
                  etag_created_at = Some (now_1 ev),
                  etag_updated_at = Some (now_2 ev),
                  etag_entity = etag_entity tag,
                  etag_prop = Some p \<rparr>
              in case create_tag_node M p (entity_tag_props M new_tag p)
                        (entity_tag_nodes (db self)) of
                   Inl e \<Rightarrow> (self, Inl e)
                 | Inr (nodes, records) \<Rightarrow>
                     (case single records of
                        None \<Rightarrow>
                          (self\<lparr>db := (db self)\<lparr>entity_tag_nodes := nodes\<rparr>\<rparr>,
                           Inl NoRecordsReturned)
                      | Some record \<Rightarrow>
                          (emit (self\<lparr>db := (db self)\<lparr>entity_tag_nodes := nodes\<rparr>\<rparr>)
                             (EntityTagInserted new_tag),
                           Inr new_tag)))
         | Inr (Some old_tag) \<Rightarrow>
             (case etag_prop old_tag of
                None \<Rightarrow> (self, Inl AttributeError)
              | Some q \<Rightarrow>
                  if prop_is_fresher_than M p q then
                    (let merged = prop_override_with M q p;
                         new_tag =
                           \<lparr> etag_id = etag_id old_tag,
                             etag_created_at = etag_created_at old_tag,
                             etag_updated_at = Some (now_1 ev),
                             etag_entity = etag_entity old_tag,
                             etag_prop = Some merged \<rparr>
                     in case set_tag_nodes (etag_id new_tag) (entity_tag_props M new_tag merged)
                               (entity_tag_nodes (db self)) of
                          (nodes, records) \<Rightarrow>
                            (emit (self\<lparr>db := (db self)\<lparr>entity_tag_nodes := nodes\<rparr>\<rparr>)
                               (EntityTagUpdated old_tag new_tag),
                             Inr new_tag))
                  else (emit self (EntityTagUntouched old_tag), Inr old_tag))))"

definition create_entity_property ::
  "('a, 'r, 'p, 'v) asset_model \<Rightarrow> ('a, 'r, 'p, 'v) NeoRepository \<Rightarrow> env \<Rightarrow> 'a Entity \<Rightarrow>
   'p \<Rightarrow> ('a, 'r, 'p, 'v) NeoRepository \<times> (error + ('a, 'p) EntityTag)" where
  "create_entity_property M self ev entity prop =
     create_entity_tag M self ev
       \<lparr> etag_id = None, etag_created_at = None, etag_updated_at = None,
         etag_entity = entity, etag_prop = Some prop \<rparr>"

text \<open>
  \<^verbatim>\<open>find_entity_tags\<close> (tags of one owner, filtered by property name) pastes the owner id
  between single quotes. It raises when nothing is stored for the owner and when the
  name filter leaves nothing.
\<close>

fun entity_tags_by_name_loop ::
  "('a, 'r, 'p, 'v) asset_model \<Rightarrow> ('a, 'r, 'p, 'v) NeoRepository \<Rightarrow> string list \<Rightarrow>
   'v tag_node list \<Rightarrow> ('a, 'p) EntityTag list \<Rightarrow> error + ('a, 'p) EntityTag list" where
  "entity_tags_by_name_loop M self names [] tags = Inr tags"
| "entity_tags_by_name_loop M self names (node # records) tags =
     (case node_to_entity_tag M self node of
        Inl e \<Rightarrow> Inl e
      | Inr tag \<Rightarrow>
          (case etag_prop tag of
             None \<Rightarrow> Inl MalformedTag
           | Some p \<Rightarrow>
               if names \<noteq> [] \<and> \<not> List.member names (prop_name M p)
               then entity_tags_by_name_loop M self names records tags
               else entity_tags_by_name_loop M self names records (tags @ [tag])))"

definition find_entity_tags ::
  "('a, 'r, 'p, 'v) asset_model \<Rightarrow> ('a, 'r, 'p, 'v) NeoRepository \<Rightarrow> 'a Entity \<Rightarrow>
   datetime option \<Rightarrow> string list \<Rightarrow> error + ('a, 'p) EntityTag list" where
  "find_entity_tags M self entity since names =
     (if \<not> single_quoted (entity_id entity) then Inl CypherSyntaxError
      else
        (let records =
           filter (\<lambda>n. n_owner_id n = Some (entity_id entity)
                       \<and> touched_since since (n_updated_at n)) (entity_tag_nodes (db self))
         in if records = [] then Inl NoTagsFound
            else (case entity_tags_by_name_loop M self names records [] of
                    Inl e \<Rightarrow> Inl e
                  | Inr tags \<Rightarrow> if tags = [] then Inl NoTagsFound else Inr tags)))"

text \<open>\<^verbatim>\<open>MATCH (n:EntityTag {tag_id: $id}) DETACH DELETE n\<close>, after the lookup by id.\<close>

definition delete_entity_tag ::
  "('a, 'r, 'p, 'v) asset_model \<Rightarrow> ('a, 'r, 'p, 'v) NeoRepository \<Rightarrow> string \<Rightarrow>
   ('a, 'r, 'p, 'v) NeoRepository \<times> (error + ('a, 'p) EntityTag)" where
  "delete_entity_tag M self i =
     (case find_entity_tag_by_id M self i of
        Inl e \<Rightarrow> (self, Inl e)
      | Inr tag \<Rightarrow>
          (emit (self\<lparr>db := (db self)\<lparr>entity_tag_nodes :=
                    filter (\<lambda>n. n_tag_id n \<noteq> Some i) (entity_tag_nodes (db self))\<rparr>\<rparr>)
             (EntityTagDeleted tag),
           Inr tag))"

subsection \<open>\<^verbatim>\<open>edge_tag.py\<close>\<close>

text \<open>
  \<^verbatim>\<open>_node_to_edge_tag\<close>: as for entity tags, with the owner looked up by
  \<^verbatim>\<open>find_edge_by_id\<close> and the second timestamp reported under its own name.
\<close>

definition node_to_edge_tag ::
  "('a, 'r, 'p, 'v) asset_model \<Rightarrow> ('a, 'r, 'p, 'v) NeoRepository \<Rightarrow> 'v tag_node \<Rightarrow>
   error + ('a, 'r, 'p) EdgeTag" where
  "node_to_edge_tag M self node =
     (case n_tag_id node of
        None \<Rightarrow> Inl (ExtractError ''tag_id'')
      | Some i \<Rightarrow>
     (case n_owner_id node of
        None \<Rightarrow> Inl (ExtractError ''edge_id'')
      | Some oid \<Rightarrow>
     (case find_edge_by_id M self oid of
        Inl e \<Rightarrow> Inl e
      | Inr edge \<Rightarrow>
     (case to_native ''created_at'' (n_created_at node) of
        Inl e \<Rightarrow> Inl e
      | Inr c \<Rightarrow>
     (case to_native ''updated_at'' (n_updated_at node) of
        Inl e \<Rightarrow> Inl e
      | Inr u \<Rightarrow>
     (case n_ttype node of
        None \<Rightarrow> Inl (ExtractError ''ttype'')
      | Some t \<Rightarrow>
          if \<not> is_property_type M t then Inl ValueError
          else
            (case prop_from_dict M t (n_fields node) of
               None \<Rightarrow> Inl DecodeError
             | Some p \<Rightarrow>
                 Inr \<lparr> gtag_id = Some i, gtag_created_at = Some c, gtag_updated_at = Some u,
                       gtag_edge = edge, gtag_prop = Some p \<rparr>)))))))"

fun edge_tags_loop ::
  "('a, 'r, 'p, 'v) asset_model \<Rightarrow> ('a, 'r, 'p, 'v) NeoRepository \<Rightarrow> 'v tag_node list \<Rightarrow>
   ('a, 'r, 'p) EdgeTag list \<Rightarrow> error + ('a, 'r, 'p) EdgeTag list" where
  "edge_tags_loop M self [] tags = Inr tags"
| "edge_tags_loop M self (node # records) tags =
     (case node_to_edge_tag M self node of
        Inl e \<Rightarrow> Inl e
      | Inr tag \<Rightarrow> edge_tags_loop M self records (tags @ [tag]))"

definition find_edge_tags_by_content ::
  "('a, 'r, 'p, 'v) asset_model \<Rightarrow> ('a, 'r, 'p, 'v) NeoRepository \<Rightarrow> 'p \<Rightarrow>
   datetime option \<Rightarrow> error + ('a, 'r, 'p) EdgeTag list" where
  "find_edge_tags_by_content M self prop since =
     (case match_tags_by_content M (edge_tag_nodes (db self)) prop since of
        Inl e \<Rightarrow> Inl e
      | Inr records \<Rightarrow> edge_tags_loop M self records [])"

text \<open>The same call shape as \<^verbatim>\<open>find_entity_tag_by_id\<close>, with the same outcome.\<close>

definition find_edge_tag_by_id ::
  "('a, 'r, 'p, 'v) asset_model \<Rightarrow> ('a, 'r, 'p, 'v) NeoRepository \<Rightarrow> string \<Rightarrow>
   error + ('a, 'r, 'p) EdgeTag" where
  "find_edge_tag_by_id M self i =
     (let result =
        Some (EagerResult (filter (\<lambda>n. n_tag_id n = Some i) (edge_tag_nodes (db self))))
      in case result of
           None \<Rightarrow> Inl TagNotFound
         | Some res \<Rightarrow>
             (case eager_get res ''p'' of
                Inl e \<Rightarrow> Inl e
              | Inr node \<Rightarrow> node_to_edge_tag M self node))"

definition find_existing_edge_tag ::
  "('a, 'r, 'p, 'v) asset_model \<Rightarrow> ('a, 'r, 'p, 'v) NeoRepository \<Rightarrow> ('a, 'r, 'p) EdgeTag \<Rightarrow>
   error + ('a, 'r, 'p) EdgeTag option" where
  "find_existing_edge_tag M self tag =
     (let by_content =
        (case gtag_prop tag of
           None \<Rightarrow> Inl AttributeError
         | Some p \<Rightarrow>
             (case find_edge_tags_by_content M self p None of
                Inl e \<Rightarrow> Inl e
              | Inr findings \<Rightarrow>
                  Inr (case findings of [] \<Rightarrow> None | first # _ \<Rightarrow> Some first)))
      in case gtag_id tag of
           None \<Rightarrow> by_content
         | Some i \<Rightarrow>
             if i = [] then by_content
             else (case find_edge_tag_by_id M self i of
                     Inl e \<Rightarrow> Inl e
                   | Inr old \<Rightarrow> Inr (Some old)))"

definition edge_tag_props ::
  "('a, 'r, 'p, 'v) asset_model \<Rightarrow> ('a, 'r, 'p) EdgeTag \<Rightarrow> 'p \<Rightarrow> 'v tag_node \<Rightarrow>
   'v tag_node" where
  "edge_tag_props M tag p n =
     tag_props M (gtag_id tag) (edge_id (gtag_edge tag))
       (gtag_created_at tag) (gtag_updated_at tag) p n"

text \<open>Unlike the entity tag update, the edge tag update checks the returned record.\<close>

definition create_edge_tag ::
  "('a, 'r, 'p, 'v) asset_model \<Rightarrow> ('a, 'r, 'p, 'v) NeoRepository \<Rightarrow> env \<Rightarrow>
   ('a, 'r, 'p) EdgeTag \<Rightarrow> ('a, 'r, 'p, 'v) NeoRepository \<times> (error + ('a, 'r, 'p) EdgeTag)" where
  "create_edge_tag M self ev tag =
     (case gtag_prop tag of
        None \<Rightarrow> (self, Inl MalformedTag)
      | Some p \<Rightarrow>
        (case find_existing_edge_tag M self tag of
           Inl e \<Rightarrow> (self, Inl e)
         | Inr None \<Rightarrow>
             (let new_tag =
                \<lparr> gtag_id = Some (uuid4 ev),
                  gtag_created_at = Some (now_1 ev),
                  gtag_updated_at = Some (now_2 ev),
                  gtag_edge = gtag_edge tag,
                  gtag_prop = Some p \<rparr>
              in case create_tag_node M p (edge_tag_props M new_tag p)
                        (edge_tag_nodes (db self)) of
                   Inl e \<Rightarrow> (self, Inl e)
                 | Inr (nodes, records) \<Rightarrow>
                     (case single records of
                        None \<Rightarrow>
                          (self\<lparr>db := (db self)\<lparr>edge_tag_nodes := nodes\<rparr>\<rparr>,
                           Inl NoRecordsReturned)
                      | Some record \<Rightarrow>
                          (emit (self\<lparr>db := (db self)\<lparr>edge_tag_nodes := nodes\<rparr>\<rparr>)
                             (EdgeTagInserted new_tag),
                           Inr new_tag)))
         | Inr (Some old_tag) \<Rightarrow>
             (case gtag_prop old_tag of
                None \<Rightarrow> (self, Inl AttributeError)
              | Some q \<Rightarrow>
                  if prop_is_fresher_than M p q then
                    (let merged = prop_override_with M q p;
                         new_tag =
                           \<lparr> gtag_id = gtag_id old_tag,
                             gtag_created_at = gtag_created_at old_tag,
                             gtag_updated_at = Some (now_1 ev),
                             gtag_edge = gtag_edge old_tag,
                             gtag_prop = Some merged \<rparr>
                     in case set_tag_nodes (gtag_id new_tag) (edge_tag_props M new_tag merged)
                               (edge_tag_nodes (db self)) of
                          (nodes, records) \<Rightarrow>
                            (case single records of
                               None \<Rightarrow>
                                 (self\<lparr>db := (db self)\<lparr>edge_tag_nodes := nodes\<rparr>\<rparr>,
                                  Inl NoRecordsReturned)
                             | Some record \<Rightarrow>
                                 (emit (self\<lparr>db := (db self)\<lparr>edge_tag_nodes := nodes\<rparr>\<rparr>)
                                    (EdgeTagUpdated old_tag new_tag),
                                  Inr new_tag)))
                  else (emit self (EdgeTagUntouched old_tag), Inr old_tag))))"

definition create_edge_property ::
  "('a, 'r, 'p, 'v) asset_model \<Rightarrow> ('a, 'r, 'p, 'v) NeoRepository \<Rightarrow> env \<Rightarrow> ('a, 'r) Edge \<Rightarrow>
   'p \<Rightarrow> ('a, 'r, 'p, 'v) NeoRepository \<times> (error + ('a, 'r, 'p) EdgeTag)" where
  "create_edge_property M self ev edge prop =
     create_edge_tag M self ev
       \<lparr> gtag_id = None, gtag_created_at = None, gtag_updated_at = None,
         gtag_edge = edge, gtag_prop = Some prop \<rparr>"

text \<open>
  \<^verbatim>\<open>find_edge_tags\<close> pastes \<^verbatim>\<open>edge.id\<close> into the statement text (a missing id reads
  \<^verbatim>\<open>None\<close>) and returns the empty list where \<^verbatim>\<open>find_entity_tags\<close> raises.
\<close>

fun edge_tags_by_name_loop ::
  "('a, 'r, 'p, 'v) asset_model \<Rightarrow> ('a, 'r, 'p, 'v) NeoRepository \<Rightarrow> string list \<Rightarrow>
   'v tag_node list \<Rightarrow> ('a, 'r, 'p) EdgeTag list \<Rightarrow> error + ('a, 'r, 'p) EdgeTag list" where
  "edge_tags_by_name_loop M self names [] tags = Inr tags"
| "edge_tags_by_name_loop M self names (node # records) tags =
     (case node_to_edge_tag M self node of
        Inl e \<Rightarrow> Inl e
      | Inr tag \<Rightarrow>
          (case gtag_prop tag of
             None \<Rightarrow> Inl MalformedTag
           | Some p \<Rightarrow>
               if names \<noteq> [] \<and> \<not> List.member names (prop_name M p)
               then edge_tags_by_name_loop M self names records tags
               else edge_tags_by_name_loop M self names records (tags @ [tag])))"

definition find_edge_tags ::
  "('a, 'r, 'p, 'v) asset_model \<Rightarrow> ('a, 'r, 'p, 'v) NeoRepository \<Rightarrow> ('a, 'r) Edge \<Rightarrow>
   datetime option \<Rightarrow> string list \<Rightarrow> error + ('a, 'r, 'p) EdgeTag list" where
  "find_edge_tags M self edge since names =
     (let owner = (case edge_id edge of None \<Rightarrow> ''None'' | Some i \<Rightarrow> i)
      in if \<not> single_quoted owner then Inl CypherSyntaxError
         else
           edge_tags_by_name_loop M self names
             (filter (\<lambda>n. n_owner_id n = Some owner
                         \<and> touched_since since (n_updated_at n)) (edge_tag_nodes (db self)))
             [])"

definition delete_edge_tag ::
  "('a, 'r, 'p, 'v) asset_model \<Rightarrow> ('a, 'r, 'p, 'v) NeoRepository \<Rightarrow> string \<Rightarrow>
   ('a, 'r, 'p, 'v) NeoRepository \<times> (error + ('a, 'r, 'p) EdgeTag)" where
  "delete_edge_tag M self i =
     (case find_edge_tag_by_id M self i of
        Inl e \<Rightarrow> (self, Inl e)
      | Inr tag \<Rightarrow>
          (emit (self\<lparr>db := (db self)\<lparr>edge_tag_nodes :=
                    filter (\<lambda>n. n_tag_id n \<noteq> Some i) (edge_tag_nodes (db self))\<rparr>\<rparr>)
             (EdgeTagDeleted tag),
           Inr tag))"

subsection \<open>Sequences of calls\<close>

text \<open>
  A caller's session is a list of calls of the mutating operations and of
  \<^verbatim>\<open>flush_events\<close>; each acts on the repository the previous one left (a call that raises
  leaves what it had written until then).
\<close>

datatype ('a, 'r, 'p) call =
    CreateEdge env "('a, 'r) Edge"
  | CreateRelation env 'r "'a Entity" "'a Entity"
  | DeleteEdge string
  | CreateEntityTag env "('a, 'p) EntityTag"
  | CreateEntityProperty env "'a Entity" 'p
  | DeleteEntityTag string
  | CreateEdgeTag env "('a, 'r, 'p) EdgeTag"
  | CreateEdgeProperty env "('a, 'r) Edge" 'p
  | DeleteEdgeTag string
  | FlushEvents

fun step ::
  "('a, 'r, 'p, 'v) asset_model \<Rightarrow> ('a, 'r, 'p, 'v) NeoRepository \<Rightarrow> ('a, 'r, 'p) call \<Rightarrow>
   ('a, 'r, 'p, 'v) NeoRepository" where
  "step M self (CreateEdge ev edge) = fst (create_edge M self ev edge)"
| "step M self (CreateRelation ev rel from_e to_e) = fst (create_relation M self ev rel from_e to_e)"
| "step M self (DeleteEdge i) = fst (delete_edge M self i)"
| "step M self (CreateEntityTag ev tag) = fst (create_entity_tag M self ev tag)"
| "step M self (CreateEntityProperty ev entity prop) =
     fst (create_entity_property M self ev entity prop)"
| "step M self (DeleteEntityTag i) = fst (delete_entity_tag M self i)"
| "step M self (CreateEdgeTag ev tag) = fst (create_edge_tag M self ev tag)"
| "step M self (CreateEdgeProperty ev edge prop) = fst (create_edge_property M self ev edge prop)"
| "step M self (DeleteEdgeTag i) = fst (delete_edge_tag M self i)"
| "step M self FlushEvents = fst (flush_events self)"

definition run ::
  "('a, 'r, 'p, 'v) asset_model \<Rightarrow> ('a, 'r, 'p, 'v) NeoRepository \<Rightarrow> ('a, 'r, 'p) call list \<Rightarrow>
   ('a, 'r, 'p, 'v) NeoRepository" where
  "run M self calls = foldl (step M) self calls"

text \<open>
  The record an event reports: the result for an insert, an update or a no-op.
\<close>

fun edge_event :: "('a, 'r, 'p) event \<Rightarrow> ('a, 'r) Edge \<Rightarrow> bool" where
  "edge_event (EdgeInserted x) r = (x = r)"
| "edge_event (EdgeUpdated old x) r = (x = r)"
| "edge_event (EdgeUntouched x) r = (x = r)"
| "edge_event _ r = False"

fun entity_tag_event :: "('a, 'r, 'p) event \<Rightarrow> ('a, 'p) EntityTag \<Rightarrow> bool" where
  "entity_tag_event (EntityTagInserted x) r = (x = r)"
| "entity_tag_event (EntityTagUpdated old x) r = (x = r)"
| "entity_tag_event (EntityTagUntouched x) r = (x = r)"
| "entity_tag_event _ r = False"

fun edge_tag_event :: "('a, 'r, 'p) event \<Rightarrow> ('a, 'r, 'p) EdgeTag \<Rightarrow> bool" where
  "edge_tag_event (EdgeTagInserted x) r = (x = r)"
| "edge_tag_event (EdgeTagUpdated old x) r = (x = r)"
| "edge_tag_event (EdgeTagUntouched x) r = (x = r)"
| "edge_tag_event _ r = False"

subsection \<open>A small instance\<close>

text \<open>
  An asset is its asset type. A relation is a label with a number, and its dictionary
  has the keys \<^verbatim>\<open>name\<close> and \<^verbatim>\<open>ttl\<close>; a property is a property type with a source name and
  a confidence, and its dictionary has the keys \<^verbatim>\<open>source\<close> and \<^verbatim>\<open>confidence\<close>, as the
  \<^verbatim>\<open>SourceProperty("myscript", 100)\<close> of the tests. Two relations are equal when their
  payloads are. The taxonomy allows \<^verbatim>\<open>dns_record\<close> from an FQDN to an IP address and
  nothing else. A relation (a property) is fresher when its number is larger, and
  overriding keeps the incoming payload.
\<close>

datatype val = Str string | Num nat

type_synonym ex_model = "(string, string \<times> nat, string \<times> string \<times> nat, val) asset_model"
type_synonym ex_repo = "(string, string \<times> nat, string \<times> string \<times> nat, val) NeoRepository"

definition M0 :: ex_model where
  "M0 = \<lparr> asset_type = (\<lambda>a. a),
          valid_relationship =
            (\<lambda>f l t d. f = ''FQDN'' \<and> l = ''dns_record'' \<and> d = ''IPAddress''),
          label = fst,
          relation_type = (\<lambda>r. ''BasicDNSRelation''),
          equals = (\<lambda>x y. x = y),
          rel_is_fresher_than = (\<lambda>x y. snd y < snd x),
          rel_override_with = (\<lambda>old new. new),
          rel_to_dict = (\<lambda>r. [(''name'', Some (Str (fst r))), (''ttl'', Some (Num (snd r)))]),
          is_relation_type = (\<lambda>t. t = ''BasicDNSRelation''),
          rel_from_dict =
            (\<lambda>t f. case (map_of f ''name'', map_of f ''ttl'') of
                      (Some (Str l), Some (Num n)) \<Rightarrow> Some (l, n)
                    | _ \<Rightarrow> None),
          property_type = fst,
          prop_name = (\<lambda>p. fst (snd p)),
          prop_is_fresher_than = (\<lambda>x y. snd (snd y) < snd (snd x)),
          prop_override_with = (\<lambda>old new. new),
          prop_to_dict =
            (\<lambda>p. [(''source'', Some (Str (fst (snd p)))),
                  (''confidence'', Some (Num (snd (snd p))))]),
          is_property_type = (\<lambda>t. t = ''SourceProperty'' \<or> t = ''SimpleProperty''),
          prop_from_dict =
            (\<lambda>t f. case (map_of f ''source'', map_of f ''confidence'') of
                      (Some (Str s), Some (Num c)) \<Rightarrow> Some (t, s, c)
                    | _ \<Rightarrow> None) \<rparr>"

definition fqdn1 :: "string Entity" where
  "fqdn1 = \<lparr> entity_id = ''e1'', entity_created_at = Some 1, entity_updated_at = Some 1,
             asset = ''FQDN'' \<rparr>"

definition ip1 :: "string Entity" where
  "ip1 = \<lparr> entity_id = ''e2'', entity_created_at = Some 2, entity_updated_at = Some 2,
           asset = ''IPAddress'' \<rparr>"

definition fqdn2 :: "string Entity" where
  "fqdn2 = \<lparr> entity_id = ''e3'', entity_created_at = Some 3, entity_updated_at = Some 3,
             asset = ''FQDN'' \<rparr>"

text \<open>
  The stored graph: the three entities, the \<^verbatim>\<open>dns_record\<close> edges \<open>x1\<close> from \<open>e1\<close> to
  \<open>e2\<close> and \<open>x2\<close> from \<open>e3\<close> to \<open>e2\<close>, one source tag \<open>t1\<close> on entity \<open>e1\<close>, one
  source tag \<open>t2\<close> on edge \<open>x1\<close>.
\<close>

definition stored_rel :: "val relationship" where
  "stored_rel =
     \<lparr> r_type = ''DNS_RECORD'', r_from = ''e1'', r_to = ''e2'', r_edge_id = Some ''x1'',
       r_created_at = DateTime 10, r_updated_at = DateTime 11,
       r_etype = Some ''BasicDNSRelation'',
       r_fields = [(''name'', Str ''dns_record''), (''ttl'', Num 5)] \<rparr>"

definition stored_rel2 :: "val relationship" where
  "stored_rel2 =
     \<lparr> r_type = ''DNS_RECORD'', r_from = ''e3'', r_to = ''e2'', r_edge_id = Some ''x2'',
       r_created_at = DateTime 16, r_updated_at = DateTime 17,
       r_etype = Some ''BasicDNSRelation'',
       r_fields = [(''name'', Str ''dns_record''), (''ttl'', Num 5)] \<rparr>"

definition stored_entity_tag_node :: "val tag_node" where
  "stored_entity_tag_node =
     \<lparr> n_label = ''SourceProperty'', n_tag_id = Some ''t1'', n_owner_id = Some ''e1'',
       n_created_at = DateTime 12, n_updated_at = DateTime 13,
       n_ttype = Some ''SourceProperty'',
       n_fields = [(''source'', Str ''myscript''), (''confidence'', Num 100)] \<rparr>"

definition stored_edge_tag_node :: "val tag_node" where
  "stored_edge_tag_node =
     \<lparr> n_label = ''SourceProperty'', n_tag_id = Some ''t2'', n_owner_id = Some ''x1'',
       n_created_at = DateTime 14, n_updated_at = DateTime 15,
       n_ttype = Some ''SourceProperty'',
       n_fields = [(''source'', Str ''myscript''), (''confidence'', Num 100)] \<rparr>"

definition g1 :: "(string, val) graph" where
  "g1 = \<lparr> entity_nodes = [fqdn1, ip1, fqdn2],
          relationships = [stored_rel, stored_rel2],
          entity_tag_nodes = [stored_entity_tag_node],
          edge_tag_nodes = [stored_edge_tag_node] \<rparr>"

text \<open>The same graph behind two repositories: events on, and events on with taxonomy off.\<close>

definition repo_events :: ex_repo where
  "repo_events = init g1 None (Some True)"

definition repo_no_taxonomy :: ex_repo where
  "repo_no_taxonomy = init g1 (Some False) (Some True)"

definition ev0 :: env where
  "ev0 = \<lparr> uuid4 = ''u9'', now_1 = 20, now_2 = 21 \<rparr>"

text \<open>The stored records as the lookups decode them.\<close>

definition stored_edge :: "(string, string \<times> nat) Edge" where
  "stored_edge =
     \<lparr> edge_id = Some ''x1'', edge_created_at = Some 10, edge_updated_at = Some 11,
       relation = (''dns_record'', 5), from_entity = fqdn1, to_entity = ip1 \<rparr>"

definition stored_edge2 :: "(string, string \<times> nat) Edge" where
  "stored_edge2 =
     \<lparr> edge_id = Some ''x2'', edge_created_at = Some 16, edge_updated_at = Some 17,
       relation = (''dns_record'', 5), from_entity = fqdn2, to_entity = ip1 \<rparr>"

definition stored_entity_tag :: "(string, string \<times> string \<times> nat) EntityTag" where
  "stored_entity_tag =
     \<lparr> etag_id = Some ''t1'', etag_created_at = Some 12, etag_updated_at = Some 13,
       etag_entity = fqdn1, etag_prop = Some (''SourceProperty'', ''myscript'', 100) \<rparr>"

definition stored_edge_tag :: "(string, string \<times> nat, string \<times> string \<times> nat) EdgeTag" where
  "stored_edge_tag =
     \<lparr> gtag_id = Some ''t2'', gtag_created_at = Some 14, gtag_updated_at = Some 15,
       gtag_edge = stored_edge, gtag_prop = Some (''SourceProperty'', ''myscript'', 100) \<rparr>"

text \<open>Submissions: an edge from \<open>e1\<close> to \<open>e2\<close> and tags, without an id.\<close>

definition submit_edge :: "string \<times> nat \<Rightarrow> (string, string \<times> nat) Edge" where
  "submit_edge rel =
     \<lparr> edge_id = None, edge_created_at = None, edge_updated_at = None,
       relation = rel, from_entity = fqdn1, to_entity = ip1 \<rparr>"

definition submit_entity_tag ::
  "string Entity \<Rightarrow> string \<times> string \<times> nat \<Rightarrow> (string, string \<times> string \<times> nat) EntityTag" where
  "submit_entity_tag entity prop =
     \<lparr> etag_id = None, etag_created_at = None, etag_updated_at = None,
       etag_entity = entity, etag_prop = Some prop \<rparr>"

definition submit_edge_tag ::
  "string \<times> string \<times> nat \<Rightarrow> (string, string \<times> nat, string \<times> string \<times> nat) EdgeTag" where
  "submit_edge_tag prop =
     \<lparr> gtag_id = None, gtag_created_at = None, gtag_updated_at = None,
       gtag_edge = stored_edge, gtag_prop = Some prop \<rparr>"

text \<open>An edge the taxonomy rejects: \<^verbatim>\<open>bogus\<close> from the IP address to the FQDN.\<close>

definition rejected_edge :: "(string, string \<times> nat) Edge" where
  "rejected_edge =
     \<lparr> edge_id = None, edge_created_at = None, edge_updated_at = None,
       relation = (''bogus'', 1), from_entity = ip1, to_entity = fqdn1 \<rparr>"

text \<open>An edge whose label is not a bare name: \<^verbatim>\<open>seen by\<close> from the FQDN to the IP address.\<close>

definition spaced_edge :: "(string, string \<times> nat) Edge" where
  "spaced_edge =
     \<lparr> edge_id = None, edge_created_at = None, edge_updated_at = None,
       relation = (''seen by'', 1), from_entity = fqdn1, to_entity = ip1 \<rparr>"

section \<open>Properties\<close>

subsection \<open>Unfolding facts\<close>

lemmas ex_defs = repo_events_def repo_no_taxonomy_def init_def g1_def M0_def
  stored_edge_def stored_edge2_def stored_rel_def stored_rel2_def stored_entity_tag_node_def
  stored_edge_tag_node_def stored_entity_tag_def stored_edge_tag_def fqdn1_def ip1_def
  fqdn2_def ev0_def submit_edge_def submit_entity_tag_def submit_edge_tag_def
  rejected_edge_def spaced_edge_def

lemmas text_defs = cypher_name_def name_start_def name_part_def double_quoted_def
  single_quoted_def upper_def upper_char_def

lemmas edge_defs = find_existing_edge_def outgoing_edges_def match_outgoing_def touched_since_def
  label_selected_def find_entity_by_id_def relationship_to_edge_def expect_datetime_def
  find_edge_by_id_def single_def create_edge_def taxonomy_valid_def create_relationship_def
  set_relationship_def set_matches_def edge_props_def edge_label_def edge_statement_ok_def
  store_time_def store_fields_def List.map_filter_simps emit_def Let_def

lemmas tag_defs = find_existing_entity_tag_def find_entity_tags_by_content_def
  match_tags_by_content_def content_statement_ok_def fields_match_def node_to_entity_tag_def
  to_native_def find_existing_edge_tag_def find_edge_tags_by_content_def node_to_edge_tag_def
  touched_since_def find_entity_by_id_def find_edge_by_id_def relationship_to_edge_def
  expect_datetime_def single_def Let_def


lemma emit_events_emit: "emit_events (emit self e) = emit_events self"
  by (simp add: emit_def)

lemma enforce_taxonomy_emit: "enforce_taxonomy (emit self e) = enforce_taxonomy self"
  by (simp add: emit_def)

lemma events_buffer_emit:
  "events_buffer (emit self e) =
     (if emit_events self then events_buffer self @ [e] else events_buffer self)"
  by (simp add: emit_def)

subsection \<open>What the lookups return\<close>

lemma find_entity_tag_by_id_raises: "find_entity_tag_by_id M self i = Inl AttributeError"
  by (simp add: find_entity_tag_by_id_def eager_get_def)

lemma find_edge_tag_by_id_raises: "find_edge_tag_by_id M self i = Inl AttributeError"
  by (simp add: find_edge_tag_by_id_def eager_get_def)

lemma find_entity_by_id_Inr: "find_entity_by_id self i = Inr e \<Longrightarrow> entity_id e = i"
  by (auto simp: find_entity_by_id_def find_Some_iff split: option.splits)

lemma node_to_entity_tag_Inr:
  "node_to_entity_tag M self n = Inr t \<Longrightarrow>
     etag_id t = n_tag_id n \<and> n_tag_id n \<noteq> None
     \<and> (\<exists>ty p. n_ttype n = Some ty \<and> prop_from_dict M ty (n_fields n) = Some p
            \<and> etag_prop t = Some p)
     \<and> n_owner_id n = Some (entity_id (etag_entity t))"
  by (auto simp: node_to_entity_tag_def split: option.splits sum.splits if_splits
      dest: find_entity_by_id_Inr)

lemma entity_tags_loop_decoded:
  "entity_tags_loop M self ns acc = Inr ts \<Longrightarrow> t \<in> set ts \<Longrightarrow>
     t \<in> set acc \<or> (\<exists>n\<in>set ns. node_to_entity_tag M self n = Inr t)"
proof (induction ns arbitrary: acc)
  case Nil
  then show ?case by simp
next
  case (Cons n ns)
  then show ?case by (fastforce split: sum.splits)
qed

text \<open>
  The tag an upsert resolves to is decoded from a stored node of the submitted property
  type whose fields equal the submitted dictionary, key by key.
\<close>

lemma find_existing_entity_tag_stored:
  assumes "find_existing_entity_tag M self tag = Inr (Some old)"
  shows "\<exists>p. etag_prop tag = Some p
           \<and> (\<exists>n\<in>set (entity_tag_nodes (db self)).
                n_label n = property_type M p
                \<and> fields_match (prop_to_dict M p) (n_fields n)
                \<and> node_to_entity_tag M self n = Inr old)"
proof -
  from assms obtain p records findings where
    p: "etag_prop tag = Some p"
    and m: "match_tags_by_content M (entity_tag_nodes (db self)) p None = Inr records"
    and f: "entity_tags_loop M self records [] = Inr findings" and o: "old \<in> set findings"
    by (auto simp: find_existing_entity_tag_def find_entity_tags_by_content_def Let_def
        find_entity_tag_by_id_raises
        split: option.splits sum.splits list.splits if_splits)
  from entity_tags_loop_decoded [OF f o] obtain n where
    "n \<in> set records" "node_to_entity_tag M self n = Inr old" by auto
  with m p show ?thesis
    by (auto simp: match_tags_by_content_def split: if_splits)
qed

lemma single_filter_Some: "single (filter P xs) = Some x \<Longrightarrow> P x \<and> x \<in> set xs"
  by (auto simp: single_def split: list.splits dest: filter_eq_ConsD)

lemma relationship_to_edge_Inr:
  "relationship_to_edge M r f t = Inr e \<Longrightarrow>
     edge_id e = r_edge_id r \<and> r_edge_id r \<noteq> None
     \<and> r_created_at r = store_time (edge_created_at e)
     \<and> r_updated_at r = store_time (edge_updated_at e)
     \<and> (\<exists>ty. r_etype r = Some ty \<and> rel_from_dict M ty (r_fields r) = Some (relation e))
     \<and> from_entity e = f \<and> to_entity e = t"
  by (auto simp: relationship_to_edge_def expect_datetime_def store_time_def
      split: option.splits sum.splits stored_time.splits if_splits)

lemma find_edge_by_id_stored:
  assumes "find_edge_by_id M self i = Inr e"
  shows "\<exists>r\<in>set (relationships (db self)).
           r_edge_id r = Some i \<and> r_from r = entity_id (from_entity e)
           \<and> r_to r = entity_id (to_entity e)
           \<and> relationship_to_edge M r (from_entity e) (to_entity e) = Inr e"
proof -
  from assms obtain r f t where
    r: "single (filter (\<lambda>r. r_edge_id r = Some i) (relationships (db self))) = Some r"
    and f: "find_entity_by_id self (r_from r) = Inr f"
    and t: "find_entity_by_id self (r_to r) = Inr t"
    and e: "relationship_to_edge M r f t = Inr e"
    by (auto simp: find_edge_by_id_def split: option.splits sum.splits)
  from e have "from_entity e = f" "to_entity e = t"
    by (simp_all add: relationship_to_edge_Inr)
  with single_filter_Some [OF r] find_entity_by_id_Inr [OF f] find_entity_by_id_Inr [OF t] e
  show ?thesis by auto
qed

lemma find_edge_by_id_Inr:
  "find_edge_by_id M self i = Inr e \<Longrightarrow> edge_id e = Some i"
  using find_edge_by_id_stored [of M self i e] by (auto dest: relationship_to_edge_Inr)

lemma node_to_edge_tag_Inr:
  "node_to_edge_tag M self n = Inr t \<Longrightarrow>
     gtag_id t = n_tag_id n \<and> n_tag_id n \<noteq> None
     \<and> (\<exists>ty p. n_ttype n = Some ty \<and> prop_from_dict M ty (n_fields n) = Some p
            \<and> gtag_prop t = Some p)
     \<and> n_owner_id n = edge_id (gtag_edge t)"
  by (auto simp: node_to_edge_tag_def split: option.splits sum.splits if_splits
      dest: find_edge_by_id_Inr)

lemma edge_tags_loop_decoded:
  "edge_tags_loop M self ns acc = Inr ts \<Longrightarrow> t \<in> set ts \<Longrightarrow>
     t \<in> set acc \<or> (\<exists>n\<in>set ns. node_to_edge_tag M self n = Inr t)"
proof (induction ns arbitrary: acc)
  case Nil
  then show ?case by simp
next
  case (Cons n ns)
  then show ?case by (fastforce split: sum.splits)
qed

lemma find_existing_edge_tag_stored:
  assumes "find_existing_edge_tag M self tag = Inr (Some old)"
  shows "\<exists>p. gtag_prop tag = Some p
           \<and> (\<exists>n\<in>set (edge_tag_nodes (db self)).
                n_label n = property_type M p
                \<and> fields_match (prop_to_dict M p) (n_fields n)
                \<and> node_to_edge_tag M self n = Inr old)"
proof -
  from assms obtain p records findings where
    p: "gtag_prop tag = Some p"
    and m: "match_tags_by_content M (edge_tag_nodes (db self)) p None = Inr records"
    and f: "edge_tags_loop M self records [] = Inr findings" and o: "old \<in> set findings"
    by (auto simp: find_existing_edge_tag_def find_edge_tags_by_content_def Let_def
        find_edge_tag_by_id_raises
        split: option.splits sum.splits list.splits if_splits)
  from edge_tags_loop_decoded [OF f o] obtain n where
    "n \<in> set records" "node_to_edge_tag M self n = Inr old" by auto
  with m p show ?thesis
    by (auto simp: match_tags_by_content_def split: if_splits)
qed

lemma set_tag_nodes_records:
  "n \<in> set nodes \<Longrightarrow> n_tag_id n = tid \<Longrightarrow> tid \<noteq> None \<Longrightarrow>
     snd (set_tag_nodes tid props nodes) \<noteq> []"
  by (auto simp: set_tag_nodes_def filter_empty_conv)

lemma outgoing_loop_decoded:
  "outgoing_loop M self entity labels rs acc = Inr es \<Longrightarrow> e \<in> set es \<Longrightarrow>
     e \<in> set acc \<or>
     (\<exists>r\<in>set rs. \<exists>t. find_entity_by_id self (r_to r) = Inr t
        \<and> relationship_to_edge M r entity t = Inr e)"
proof (induction rs arbitrary: acc)
  case Nil
  then show ?case by simp
next
  case (Cons r rs)
  then show ?case by (fastforce split: sum.splits if_splits)
qed

lemma find_existing_edge_stored:
  assumes "find_existing_edge M self edge = Inr (Some old)"
  shows "\<exists>r\<in>set (relationships (db self)).
           r_from r = entity_id (from_entity old) \<and> r_to r = entity_id (to_entity old)
           \<and> relationship_to_edge M r (from_entity old) (to_entity old) = Inr old"
proof (cases "\<exists>i. edge_id edge = Some i \<and> i \<noteq> []")
  case True
  with assms obtain i where "find_edge_by_id M self i = Inr old"
    by (auto simp: find_existing_edge_def Let_def split: sum.splits)
  from find_edge_by_id_stored [OF this] show ?thesis by blast
next
  case False
  with assms obtain outs where
    o: "outgoing_edges M self (from_entity edge) None [] = Inr outs" and m: "old \<in> set outs"
    by (auto simp: find_existing_edge_def Let_def find_Some_iff in_set_conv_nth
        split: sum.splits option.splits if_splits)
  from outgoing_loop_decoded [OF o [unfolded outgoing_edges_def] m]
  obtain r t where r: "r \<in> set (match_outgoing (db self) (entity_id (from_entity edge)) None)"
    and t: "find_entity_by_id self (r_to r) = Inr t"
    and d: "relationship_to_edge M r (from_entity edge) t = Inr old"
    by auto
  from d have "from_entity old = from_entity edge" "to_entity old = t"
    by (simp_all add: relationship_to_edge_Inr)
  with r t d find_entity_by_id_Inr [OF t] show ?thesis
    by (auto simp: match_outgoing_def)
qed




text \<open>The decoders on stored items that do not decode, one raise each.\<close>

lemma relationship_decoder_raises:
  "relationship_to_edge M0 stored_rel fqdn1 ip1 = Inr stored_edge
   \<and> relationship_to_edge M0 (stored_rel\<lparr>r_edge_id := None\<rparr>) fqdn1 ip1
       = Inl (ExtractError ''edge_id'')
   \<and> relationship_to_edge M0 (stored_rel\<lparr>r_created_at := OtherTemporal 10\<rparr>) fqdn1 ip1
       = Inl (ExtractError ''created_at'')
   \<and> relationship_to_edge M0 (stored_rel\<lparr>r_updated_at := Absent\<rparr>) fqdn1 ip1
       = Inl (ExtractError ''updated_at'')
   \<and> relationship_to_edge M0 (stored_rel\<lparr>r_etype := None\<rparr>) fqdn1 ip1
       = Inl (ExtractError ''etype'')
   \<and> relationship_to_edge M0 (stored_rel\<lparr>r_etype := Some ''NoSuchRelation''\<rparr>) fqdn1 ip1
       = Inl ValueError
   \<and> relationship_to_edge M0 (stored_rel\<lparr>r_fields := [(''name'', Str ''dns_record'')]\<rparr>)
         fqdn1 ip1
       = Inl DecodeError"
  by (simp add: relationship_to_edge_def expect_datetime_def ex_defs)

lemma tag_decoder_raises:
  "node_to_entity_tag M0 repo_events stored_entity_tag_node = Inr stored_entity_tag
   \<and> node_to_entity_tag M0 repo_events (stored_entity_tag_node\<lparr>n_owner_id := Some ''e7''\<rparr>)
       = Inl EntityNotFound
   \<and> node_to_entity_tag M0 repo_events (stored_entity_tag_node\<lparr>n_created_at := NotTemporal\<rparr>)
       = Inl AttributeError
   \<and> node_to_entity_tag M0 repo_events (stored_entity_tag_node\<lparr>n_updated_at := Absent\<rparr>)
       = Inl (ExtractError ''created_at'')
   \<and> node_to_edge_tag M0 repo_events (stored_edge_tag_node\<lparr>n_updated_at := Absent\<rparr>)
       = Inl (ExtractError ''updated_at'')
   \<and> node_to_entity_tag M0 repo_events
         (stored_entity_tag_node\<lparr>n_ttype := Some ''NoSuchProperty''\<rparr>)
       = Inl ValueError
   \<and> node_to_entity_tag M0 repo_events
         (stored_entity_tag_node\<lparr>n_fields := [(''source'', Str ''myscript'')]\<rparr>)
       = Inl DecodeError
   \<and> node_to_edge_tag M0 repo_events (stored_edge_tag_node\<lparr>n_owner_id := Some ''x7''\<rparr>)
       = Inl EdgeNotFound"
  by (simp add: ex_defs tag_defs)

subsection \<open>The taxonomy gate\<close>

text \<open>
  Claim C4, as stated: for every combination the validator rejects, \<^verbatim>\<open>create_edge\<close> and
  \<^verbatim>\<open>create_relation\<close> fail with a taxonomy violation and nothing is written. The gate
  is \<^verbatim>\<open>if self.enforce_taxonomy and not valid_relationship(...)\<close>: a repository built
  with \<^verbatim>\<open>enforce_taxonomy=False\<close> accepts the rejected edge \<open>rejected_edge\<close> and writes
  the relationship \<^verbatim>\<open>BOGUS\<close> from \<open>e2\<close> to \<open>e1\<close>.
\<close>

theorem taxonomy_gate_off_counterexample:
  "enforce_taxonomy repo_no_taxonomy = False
   \<and> taxonomy_valid M0 rejected_edge = False
   \<and> snd (create_edge M0 repo_no_taxonomy ev0 rejected_edge)
       = Inr \<lparr> edge_id = Some ''u9'', edge_created_at = Some 20, edge_updated_at = Some 21,
               relation = (''bogus'', 1), from_entity = ip1, to_entity = fqdn1 \<rparr>
   \<and> relationships (db (fst (create_edge M0 repo_no_taxonomy ev0 rejected_edge)))
       = [stored_rel, stored_rel2,
          \<lparr> r_type = ''BOGUS'', r_from = ''e2'', r_to = ''e1'', r_edge_id = Some ''u9'',
            r_created_at = DateTime 20, r_updated_at = DateTime 21,
            r_etype = Some ''BasicDNSRelation'',
            r_fields = [(''name'', Str ''bogus''), (''ttl'', Num 1)] \<rparr>]"
  by (simp add: ex_defs edge_defs text_defs)

text \<open>
  Claim C4, amended: on a repository that enforces the taxonomy (the default), for every
  edge whose (from type, label, relation type, to type) the validator rejects,
  \<^verbatim>\<open>create_edge\<close> and \<^verbatim>\<open>create_relation\<close> fail with the taxonomy violation and return
  the repository as it was: store and event log untouched.
\<close>

theorem taxonomy_gate:
  "enforce_taxonomy self \<and> \<not> taxonomy_valid M edge \<longrightarrow>
     create_edge M self ev edge = (self, Inl TaxonomyViolation)
     \<and> create_relation M self ev (relation edge) (from_entity edge) (to_entity edge)
         = (self, Inl TaxonomyViolation)"
  by (simp add: create_edge_def create_relation_def taxonomy_valid_def)

theorem taxonomy_gate_witness:
  "enforce_taxonomy repo_events \<and> \<not> taxonomy_valid M0 rejected_edge
   \<and> create_edge M0 repo_events ev0 rejected_edge = (repo_events, Inl TaxonomyViolation)
   \<and> create_relation M0 repo_events ev0 (''bogus'', 1) ip1 fqdn1
       = (repo_events, Inl TaxonomyViolation)"
  using taxonomy_gate [of repo_events M0 rejected_edge ev0]
  by (simp add: repo_events_def init_def M0_def rejected_edge_def taxonomy_valid_def
      ip1_def fqdn1_def)

subsection \<open>Freshness merge\<close>

text \<open>
  The update branch of \<^verbatim>\<open>create_edge\<close>: when the resolution yields a stored edge, the
  incoming relation is fresher, the update statement reads (the merged label is a bare
  name) and finds a relationship of that type between the two end nodes, the upsert
  returns the stored id and \<^verbatim>\<open>created_at\<close> with the merged relation and the clock
  reading, overwrites the matching relationships and logs one \<^verbatim>\<open>EdgeUpdated\<close>.
\<close>

lemma create_edge_updated:
  assumes "\<not> (enforce_taxonomy self \<and> \<not> taxonomy_valid M edge)"
    and "find_existing_edge M self edge = Inr (Some old_edge)"
    and "rel_is_fresher_than M (relation edge) (relation old_edge)"
    and "new_edge = \<lparr> edge_id = edge_id old_edge, edge_created_at = edge_created_at old_edge,
                      edge_updated_at = Some (now_1 ev),
                      relation = rel_override_with M (relation old_edge) (relation edge),
                      from_entity = from_entity old_edge, to_entity = to_entity old_edge \<rparr>"
    and "edge_statement_ok M new_edge"
    and "filter (set_matches M new_edge) (relationships (db self)) \<noteq> []"
  shows "create_edge M self ev edge =
           (emit (self\<lparr>db := (db self)\<lparr>relationships :=
                    map (\<lambda>r. if set_matches M new_edge r then edge_props M new_edge r else r)
                      (relationships (db self))\<rparr>\<rparr>)
              (EdgeUpdated old_edge new_edge), Inr new_edge)"
proof -
  from assms(6) obtain x xs where
    "map (edge_props M new_edge) (filter (set_matches M new_edge) (relationships (db self)))
       = x # xs"
    by (cases "filter (set_matches M new_edge) (relationships (db self))") auto
  with assms(1,2,3,5) show ?thesis
    by (simp add: create_edge_def Let_def set_relationship_def single_def
        assms(4) [symmetric])
qed

text \<open>
  A stored edge is resolved by its id, so the branch is reached: the edge \<open>x1\<close>
  re-submitted under its id with a fresher relation is updated in place.
\<close>

lemma edge_merge_by_id:
  "create_edge M0 repo_events ev0 ((submit_edge (''dns_record'', 7))\<lparr>edge_id := Some ''x1''\<rparr>)
     = (repo_events
          \<lparr> db := g1\<lparr>relationships :=
                     [stored_rel\<lparr> r_updated_at := DateTime 20,
                                  r_fields := [(''name'', Str ''dns_record''), (''ttl'', Num 7)] \<rparr>,
                      stored_rel2]\<rparr>,
            events_buffer :=
              [EdgeUpdated stored_edge
                 (stored_edge\<lparr>edge_updated_at := Some 20, relation := (''dns_record'', 7)\<rparr>)] \<rparr>,
        Inr (stored_edge\<lparr>edge_updated_at := Some 20, relation := (''dns_record'', 7)\<rparr>))"
  by (simp add: ex_defs edge_defs text_defs)

text \<open>
  Without an id the scan resolves the stored edge that the library's \<^verbatim>\<open>equals\<close> accepts.
  Under payload equality, as in the instance, a relation that differs from the stored
  one is a new edge.
\<close>

lemma edge_without_id_resolved_by_equals:
  "find_existing_edge M0 repo_events (submit_edge (''dns_record'', 7)) = Inr None
   \<and> snd (create_edge M0 repo_events ev0 (submit_edge (''dns_record'', 7)))
       = Inr \<lparr> edge_id = Some ''u9'', edge_created_at = Some 20, edge_updated_at = Some 21,
               relation = (''dns_record'', 7), from_entity = fqdn1, to_entity = ip1 \<rparr>"
  by (simp add: ex_defs edge_defs text_defs)

text \<open>
  The update branches of the tag upserts, for a resolution that yields a stored tag.
\<close>

lemma create_entity_tag_updated:
  assumes "etag_prop tag = Some p"
    and "find_existing_entity_tag M self tag = Inr (Some old_tag)"
    and "etag_prop old_tag = Some q"
    and "prop_is_fresher_than M p q"
    and "new_tag = \<lparr> etag_id = etag_id old_tag, etag_created_at = etag_created_at old_tag,
                     etag_updated_at = Some (now_1 ev), etag_entity = etag_entity old_tag,
                     etag_prop = Some (prop_override_with M q p) \<rparr>"
  shows "create_entity_tag M self ev tag =
           (emit (self\<lparr>db := (db self)\<lparr>entity_tag_nodes :=
                    fst (set_tag_nodes (etag_id new_tag)
                           (entity_tag_props M new_tag (prop_override_with M q p))
                           (entity_tag_nodes (db self)))\<rparr>\<rparr>)
              (EntityTagUpdated old_tag new_tag), Inr new_tag)"
  using assms
  by (simp add: create_entity_tag_def Let_def set_tag_nodes_def)

lemma create_edge_tag_updated:
  assumes "gtag_prop tag = Some p"
    and "find_existing_edge_tag M self tag = Inr (Some old_tag)"
    and "gtag_prop old_tag = Some q"
    and "prop_is_fresher_than M p q"
    and "new_tag = \<lparr> gtag_id = gtag_id old_tag, gtag_created_at = gtag_created_at old_tag,
                     gtag_updated_at = Some (now_1 ev), gtag_edge = gtag_edge old_tag,
                     gtag_prop = Some (prop_override_with M q p) \<rparr>"
  shows "create_edge_tag M self ev tag =
           (emit (self\<lparr>db := (db self)\<lparr>edge_tag_nodes :=
                    fst (set_tag_nodes (gtag_id new_tag)
                           (edge_tag_props M new_tag (prop_override_with M q p))
                           (edge_tag_nodes (db self)))\<rparr>\<rparr>)
              (EdgeTagUpdated old_tag new_tag), Inr new_tag)"
proof -
  from find_existing_edge_tag_stored [OF assms(2)] obtain n where
    n: "n \<in> set (edge_tag_nodes (db self))" and d: "node_to_edge_tag M self n = Inr old_tag"
    by blast
  from node_to_edge_tag_Inr [OF d] have "n_tag_id n = gtag_id old_tag" "gtag_id old_tag \<noteq> None"
    by auto
  from set_tag_nodes_records [OF n this]
  have "snd (set_tag_nodes (gtag_id old_tag)
               (edge_tag_props M new_tag (prop_override_with M q p))
               (edge_tag_nodes (db self))) \<noteq> []" .
  with assms show ?thesis
    by (auto simp: create_edge_tag_def Let_def single_def split: prod.splits list.splits)
qed

text \<open>
  For a tag these branches need a resolution, and the resolution needs a stored node
  that equals the submitted property on every key
  (\<open>find_existing_entity_tag_stored\<close>, \<open>find_existing_edge_tag_stored\<close>): when a
  property that equals a stored one on every key is not fresher than what the node
  decodes to, no tag upsert logs an update.
\<close>

lemma entity_tag_never_updated:
  assumes "\<And>p n old q. n \<in> set (entity_tag_nodes (db self)) \<Longrightarrow>
             fields_match (prop_to_dict M p) (n_fields n) \<Longrightarrow>
             node_to_entity_tag M self n = Inr old \<Longrightarrow> etag_prop old = Some q \<Longrightarrow>
             \<not> prop_is_fresher_than M p q"
  shows "events_buffer (fst (create_entity_tag M self ev tag))
           \<noteq> events_buffer self @ [EntityTagUpdated old_tag new_tag]"
proof (cases "find_existing_entity_tag M self tag")
  case (Inl e)
  then show ?thesis
    by (simp add: create_entity_tag_def split: option.splits)
next
  case (Inr found)
  show ?thesis
  proof (cases found)
    case None
    with Inr show ?thesis
      by (auto simp: create_entity_tag_def Let_def create_tag_node_def single_def
          events_buffer_emit split: option.splits)
  next
    case (Some old)
    from find_existing_entity_tag_stored [OF Inr [unfolded Some]] obtain p n where
      "etag_prop tag = Some p" "n \<in> set (entity_tag_nodes (db self))"
      "fields_match (prop_to_dict M p) (n_fields n)" "node_to_entity_tag M self n = Inr old"
      by blast
    with assms Inr Some show ?thesis
      by (auto simp: create_entity_tag_def events_buffer_emit split: option.splits)
  qed
qed

lemma edge_tag_never_updated:
  assumes "\<And>p n old q. n \<in> set (edge_tag_nodes (db self)) \<Longrightarrow>
             fields_match (prop_to_dict M p) (n_fields n) \<Longrightarrow>
             node_to_edge_tag M self n = Inr old \<Longrightarrow> gtag_prop old = Some q \<Longrightarrow>
             \<not> prop_is_fresher_than M p q"
  shows "events_buffer (fst (create_edge_tag M self ev tag))
           \<noteq> events_buffer self @ [EdgeTagUpdated old_tag new_tag]"
proof (cases "find_existing_edge_tag M self tag")
  case (Inl e)
  then show ?thesis
    by (simp add: create_edge_tag_def split: option.splits)
next
  case (Inr found)
  show ?thesis
  proof (cases found)
    case None
    with Inr show ?thesis
      by (auto simp: create_edge_tag_def Let_def create_tag_node_def single_def
          events_buffer_emit split: option.splits)
  next
    case (Some old)
    from find_existing_edge_tag_stored [OF Inr [unfolded Some]] obtain p n where
      "gtag_prop tag = Some p" "n \<in> set (edge_tag_nodes (db self))"
      "fields_match (prop_to_dict M p) (n_fields n)" "node_to_edge_tag M self n = Inr old"
      by blast
    with assms Inr Some show ?thesis
      by (auto simp: create_edge_tag_def events_buffer_emit split: option.splits)
  qed
qed

text \<open>
  In the instance a property that equals a stored node on every key has the confidence
  the node decodes to, so it is not fresher: on every store, no tag upsert of the
  instance logs an update.
\<close>

lemma M0_equal_fields_not_fresher:
  assumes "fields_match (prop_to_dict M0 p) f" and "prop_from_dict M0 ty f = Some q"
  shows "\<not> prop_is_fresher_than M0 p q"
  using assms
  by (auto simp: M0_def fields_match_def split: option.splits val.splits)

lemma M0_entity_tag_never_updated:
  "events_buffer (fst (create_entity_tag M0 self ev tag))
     \<noteq> events_buffer self @ [EntityTagUpdated old_tag new_tag]"
proof (rule entity_tag_never_updated)
  fix p n old q
  assume "fields_match (prop_to_dict M0 p) (n_fields n)"
    and "node_to_entity_tag M0 self n = Inr old" and "etag_prop old = Some q"
  with node_to_entity_tag_Inr [of M0 self n old] M0_equal_fields_not_fresher [of p "n_fields n"]
  show "\<not> prop_is_fresher_than M0 p q" by auto
qed

lemma M0_edge_tag_never_updated:
  "events_buffer (fst (create_edge_tag M0 self ev tag))
     \<noteq> events_buffer self @ [EdgeTagUpdated old_tag new_tag]"
proof (rule edge_tag_never_updated)
  fix p n old q
  assume "fields_match (prop_to_dict M0 p) (n_fields n)"
    and "node_to_edge_tag M0 self n = Inr old" and "gtag_prop old = Some q"
  with node_to_edge_tag_Inr [of M0 self n old] M0_equal_fields_not_fresher [of p "n_fields n"]
  show "\<not> prop_is_fresher_than M0 p q" by auto
qed

text \<open>
  Claim C2 says that for every stored tag or edge and every fresher incoming payload the
  upsert returns the stored id and \<^verbatim>\<open>created_at\<close> with the merged payload and logs one
  \<^verbatim>\<open>Updated\<close> event. For edges the branch is there and is reached through the lookup
  by id (\<open>create_edge_updated\<close>, \<open>edge_merge_by_id\<close>). For tags it is not reached. The tag
  \<open>t1\<close> is stored on \<open>e1\<close> with \<^verbatim>\<open>SourceProperty("myscript", 100)\<close>, and
  \<^verbatim>\<open>SourceProperty("myscript", 150)\<close> is fresher. Submitted without an id, the fresher
  property is searched by content; the search compares \<^verbatim>\<open>confidence\<close> too and finds
  nothing, so a second tag \<open>u9\<close> is inserted beside \<open>t1\<close> and the event is
  \<^verbatim>\<open>EntityTagInserted\<close>. Submitted under the id \<open>t1\<close>, the upsert fails at the lookup by
  id. The same happens to the tag \<open>t2\<close> of edge \<open>x1\<close>.
\<close>

theorem fresher_tag_is_not_merged:
  "n_tag_id stored_entity_tag_node = Some ''t1''
   \<and> etag_prop stored_entity_tag = Some (''SourceProperty'', ''myscript'', 100)
   \<and> prop_is_fresher_than M0 (''SourceProperty'', ''myscript'', 150)
        (''SourceProperty'', ''myscript'', 100)
   \<and> snd (create_entity_tag M0 repo_events ev0
            (submit_entity_tag fqdn1 (''SourceProperty'', ''myscript'', 150)))
       = Inr \<lparr> etag_id = Some ''u9'', etag_created_at = Some 20, etag_updated_at = Some 21,
               etag_entity = fqdn1, etag_prop = Some (''SourceProperty'', ''myscript'', 150) \<rparr>
   \<and> events_buffer (fst (create_entity_tag M0 repo_events ev0
            (submit_entity_tag fqdn1 (''SourceProperty'', ''myscript'', 150))))
       = [EntityTagInserted
            \<lparr> etag_id = Some ''u9'', etag_created_at = Some 20, etag_updated_at = Some 21,
              etag_entity = fqdn1, etag_prop = Some (''SourceProperty'', ''myscript'', 150) \<rparr>]
   \<and> entity_tag_nodes (db (fst (create_entity_tag M0 repo_events ev0
            (submit_entity_tag fqdn1 (''SourceProperty'', ''myscript'', 150)))))
       = [stored_entity_tag_node,
          \<lparr> n_label = ''SourceProperty'', n_tag_id = Some ''u9'', n_owner_id = Some ''e1'',
            n_created_at = DateTime 20, n_updated_at = DateTime 21,
            n_ttype = Some ''SourceProperty'',
            n_fields = [(''source'', Str ''myscript''), (''confidence'', Num 150)] \<rparr>]
   \<and> create_entity_tag M0 repo_events ev0
        ((submit_entity_tag fqdn1 (''SourceProperty'', ''myscript'', 150))
           \<lparr>etag_id := Some ''t1''\<rparr>)
       = (repo_events, Inl AttributeError)
   \<and> snd (create_edge_tag M0 repo_events ev0
            (submit_edge_tag (''SourceProperty'', ''myscript'', 150)))
       = Inr \<lparr> gtag_id = Some ''u9'', gtag_created_at = Some 20, gtag_updated_at = Some 21,
               gtag_edge = stored_edge, gtag_prop = Some (''SourceProperty'', ''myscript'', 150) \<rparr>
   \<and> events_buffer (fst (create_edge_tag M0 repo_events ev0
            (submit_edge_tag (''SourceProperty'', ''myscript'', 150))))
       = [EdgeTagInserted
            \<lparr> gtag_id = Some ''u9'', gtag_created_at = Some 20, gtag_updated_at = Some 21,
              gtag_edge = stored_edge,
              gtag_prop = Some (''SourceProperty'', ''myscript'', 150) \<rparr>]
   \<and> map n_tag_id (edge_tag_nodes (db (fst (create_edge_tag M0 repo_events ev0
            (submit_edge_tag (''SourceProperty'', ''myscript'', 150))))))
       = [Some ''t2'', Some ''u9'']
   \<and> create_edge_tag M0 repo_events ev0
        ((submit_edge_tag (''SourceProperty'', ''myscript'', 150))\<lparr>gtag_id := Some ''t2''\<rparr>)
       = (repo_events, Inl AttributeError)"
  by (simp add: create_entity_tag_def create_edge_tag_def create_tag_node_def
      entity_tag_props_def edge_tag_props_def tag_props_def new_tag_node_def
      store_time_def store_fields_def List.map_filter_simps emit_def
      find_entity_tag_by_id_raises find_edge_tag_by_id_raises ex_defs tag_defs text_defs)

subsection \<open>Freshness no-op\<close>



subsection \<open>More on lookups, deletes and outcomes\<close>

text \<open>The search for an existing tag never reads the owner of the submitted tag.\<close>

lemma find_existing_entity_tag_ignores_owner:
  "find_existing_entity_tag M self (tag\<lparr>etag_entity := e\<rparr>) = find_existing_entity_tag M self tag"
  by (simp add: find_existing_entity_tag_def)

lemma find_existing_edge_tag_ignores_owner:
  "find_existing_edge_tag M self (tag\<lparr>gtag_edge := e\<rparr>) = find_existing_edge_tag M self tag"
  by (simp add: find_existing_edge_tag_def)

text \<open>Nothing found: the content searches and the traversals return the empty list.\<close>

lemma find_edge_by_id_absent:
  "filter (\<lambda>r. r_edge_id r = Some i) (relationships (db self)) = [] \<Longrightarrow>
     find_edge_by_id M self i = Inl EdgeNotFound"
  by (simp add: find_edge_by_id_def single_def)

lemma find_tags_by_content_absent:
  "match_tags_by_content M (entity_tag_nodes (db self)) prop since = Inr [] \<Longrightarrow>
     find_entity_tags_by_content M self prop since = Inr []"
  "match_tags_by_content M (edge_tag_nodes (db self)) prop since = Inr [] \<Longrightarrow>
     find_edge_tags_by_content M self prop since = Inr []"
  by (simp_all add: find_entity_tags_by_content_def find_edge_tags_by_content_def)

lemma outgoing_loop_none_selected:
  "\<forall>r\<in>set rs. \<not> label_selected labels r \<Longrightarrow>
     outgoing_loop M self entity labels rs acc = Inr acc"
  by (induction rs) auto

lemma incoming_loop_none_selected:
  "\<forall>r\<in>set rs. \<not> label_selected labels r \<Longrightarrow>
     incoming_loop M self entity labels rs acc = Inr acc"
  by (induction rs) auto

lemma traversal_absent:
  "\<forall>r\<in>set (match_outgoing (db self) (entity_id entity) since). \<not> label_selected labels r \<Longrightarrow>
     outgoing_edges M self entity since labels = Inr []"
  "\<forall>r\<in>set (match_incoming (db self) (entity_id entity) since). \<not> label_selected labels r \<Longrightarrow>
     incoming_edges M self entity since labels = Inr []"
  by (simp_all add: outgoing_edges_def incoming_edges_def outgoing_loop_none_selected
      incoming_loop_none_selected)

text \<open>
  The deletes: a tag delete stops at the lookup by id, an edge delete at its lookup or
  at its statement. None of them changes the repository, its event log included.
\<close>

lemma delete_entity_tag_raises: "delete_entity_tag M self i = (self, Inl AttributeError)"
  by (simp add: delete_entity_tag_def find_entity_tag_by_id_raises)

lemma delete_edge_tag_raises: "delete_edge_tag M self i = (self, Inl AttributeError)"
  by (simp add: delete_edge_tag_def find_edge_tag_by_id_raises)

lemma delete_edge_raises:
  "fst (delete_edge M self i) = self \<and> (\<exists>e. snd (delete_edge M self i) = Inl e)"
  by (simp add: delete_edge_def delete_relationship_def split: sum.splits)

lemma map_if_filter_empty:
  "filter P xs = [] \<Longrightarrow> map (\<lambda>r. if P r then f r else r) xs = xs"
  by (induction xs) (auto split: if_splits)

text \<open>
  An upsert that returns a record leaves the repository that one \<^verbatim>\<open>_emit\<close> of an event
  about that record makes, after whatever it wrote; an upsert that raises leaves the
  repository as it was, because each statement either matches and returns a record or
  writes nothing.
\<close>

lemma create_edge_Inr:
  assumes "create_edge M self ev edge = (self', Inr r)"
  shows "\<exists>g e. self' = emit (self\<lparr>db := g\<rparr>) e \<and> edge_event e r"
proof -
  have *: "emit (self\<lparr>db := db self\<rparr>) e = emit self e" for e by simp
  from assms show ?thesis
    apply (simp add: create_edge_def Let_def
        split: if_splits sum.splits option.splits prod.splits)
      apply (metis edge_event.simps(1))
     apply (metis edge_event.simps(2))
    apply (metis * edge_event.simps(3))
    done
qed

lemma create_edge_Inl:
  assumes "create_edge M self ev edge = (self', Inl err)"
  shows "self' = self"
  using assms
  by (auto simp: create_edge_def Let_def create_relationship_def set_relationship_def single_def
      map_if_filter_empty
      split: if_splits sum.splits option.splits prod.splits list.splits)

lemma create_entity_tag_Inr:
  assumes "create_entity_tag M self ev tag = (self', Inr r)"
  shows "\<exists>g e. self' = emit (self\<lparr>db := g\<rparr>) e \<and> entity_tag_event e r"
proof -
  have *: "emit (self\<lparr>db := db self\<rparr>) e = emit self e" for e by simp
  from assms show ?thesis
    apply (simp add: create_entity_tag_def Let_def single_def
        split: if_splits sum.splits option.splits prod.splits list.splits)
      apply (metis entity_tag_event.simps(1))
     apply (metis entity_tag_event.simps(2))
    apply (metis * entity_tag_event.simps(3))
    done
qed

lemma create_entity_tag_Inl:
  assumes "create_entity_tag M self ev tag = (self', Inl err)"
  shows "self' = self"
  using assms
  by (auto simp: create_entity_tag_def Let_def single_def create_tag_node_def
      split: if_splits sum.splits option.splits prod.splits)

lemma create_edge_tag_Inr:
  assumes "create_edge_tag M self ev tag = (self', Inr r)"
  shows "\<exists>g e. self' = emit (self\<lparr>db := g\<rparr>) e \<and> edge_tag_event e r"
proof -
  have *: "emit (self\<lparr>db := db self\<rparr>) e = emit self e" for e by simp
  from assms show ?thesis
    apply (simp add: create_edge_tag_def Let_def single_def
        split: if_splits sum.splits option.splits prod.splits list.splits)
      apply (metis edge_tag_event.simps(1))
     apply (metis edge_tag_event.simps(2))
    apply (metis * edge_tag_event.simps(3))
    done
qed

lemma set_tag_nodes_no_records:
  "set_tag_nodes tid props nodes = (nodes', []) \<Longrightarrow> nodes' = nodes"
  by (auto simp: set_tag_nodes_def map_if_filter_empty)

lemma create_edge_tag_Inl:
  assumes "create_edge_tag M self ev tag = (self', Inl err)"
  shows "self' = self"
  using assms
  by (auto simp: create_edge_tag_def Let_def single_def create_tag_node_def
      split: if_splits sum.splits option.splits prod.splits list.splits
      dest!: set_tag_nodes_no_records)

text \<open>No upsert changes the flag, and none touches the log while the flag is off.\<close>

lemma create_edge_flag_and_buffer:
  "emit_events (fst (create_edge M self ev edge)) = emit_events self
   \<and> (\<not> emit_events self \<longrightarrow>
        events_buffer (fst (create_edge M self ev edge)) = events_buffer self)"
proof (cases "create_edge M self ev edge")
  case (Pair self' res)
  show ?thesis
  proof (cases res)
    case (Inl err)
    with Pair create_edge_Inl [of M self ev edge self' err] show ?thesis by simp
  next
    case (Inr r)
    with Pair create_edge_Inr [of M self ev edge self' r] show ?thesis
      by (auto simp: emit_events_emit events_buffer_emit)
  qed
qed

lemma create_entity_tag_flag_and_buffer:
  "emit_events (fst (create_entity_tag M self ev tag)) = emit_events self
   \<and> (\<not> emit_events self \<longrightarrow>
        events_buffer (fst (create_entity_tag M self ev tag)) = events_buffer self)"
proof (cases "create_entity_tag M self ev tag")
  case (Pair self' res)
  show ?thesis
  proof (cases res)
    case (Inl err)
    with Pair create_entity_tag_Inl [of M self ev tag self' err] show ?thesis by simp
  next
    case (Inr r)
    with Pair create_entity_tag_Inr [of M self ev tag self' r] show ?thesis
      by (auto simp: emit_events_emit events_buffer_emit)
  qed
qed

lemma create_edge_tag_flag_and_buffer:
  "emit_events (fst (create_edge_tag M self ev tag)) = emit_events self
   \<and> (\<not> emit_events self \<longrightarrow>
        events_buffer (fst (create_edge_tag M self ev tag)) = events_buffer self)"
proof (cases "create_edge_tag M self ev tag")
  case (Pair self' res)
  show ?thesis
  proof (cases res)
    case (Inl err)
    with Pair create_edge_tag_Inl [of M self ev tag self' err] show ?thesis by simp
  next
    case (Inr r)
    with Pair create_edge_tag_Inr [of M self ev tag self' r] show ?thesis
      by (auto simp: emit_events_emit events_buffer_emit)
  qed
qed

subsection \<open>Duplicate detection for tags\<close>

text \<open>
  Claim C1 says that the duplicate detection of a tag upsert without an id considers only
  tags attached to the owner of the submitted tag. \<^verbatim>\<open>_find_existing_entity_tag\<close> and
  \<^verbatim>\<open>_find_existing_edge_tag\<close> take the first result of the content search, whoever owns
  it. Here the source tag \<open>t1\<close> is stored on entity \<open>e1\<close> and the same property is
  submitted for entity \<open>e3\<close>: the upsert reports \<open>t1\<close> of \<open>e1\<close> as untouched and stores
  nothing for \<open>e3\<close>. Likewise for the tag \<open>t2\<close> of edge \<open>x1\<close> and a submission for
  edge \<open>x2\<close>.
\<close>

theorem duplicate_detection_ignores_owner:
  "create_entity_property M0 repo_events ev0 fqdn2 (''SourceProperty'', ''myscript'', 100)
     = (repo_events\<lparr>events_buffer := [EntityTagUntouched stored_entity_tag]\<rparr>,
        Inr stored_entity_tag)
   \<and> entity_id (etag_entity stored_entity_tag) = ''e1'' \<and> entity_id fqdn2 = ''e3''
   \<and> create_edge_property M0 repo_events ev0 stored_edge2 (''SourceProperty'', ''myscript'', 100)
     = (repo_events\<lparr>events_buffer := [EdgeTagUntouched stored_edge_tag]\<rparr>,
        Inr stored_edge_tag)
   \<and> edge_id (gtag_edge stored_edge_tag) = Some ''x1'' \<and> edge_id stored_edge2 = Some ''x2''"
  by (simp add: create_entity_property_def create_entity_tag_def create_edge_property_def
      create_edge_tag_def ex_defs tag_defs text_defs emit_def)

subsection \<open>Nothing found\<close>

text \<open>
  Claim C5 says that an id-based find that locates nothing fails with \<^verbatim>\<open>NotFound\<close>.
  \<^verbatim>\<open>find_entity_tag_by_id\<close> and \<^verbatim>\<open>find_edge_tag_by_id\<close> raise \<^verbatim>\<open>AttributeError\<close> for an
  id that is not stored, and for one that is; \<^verbatim>\<open>find_edge_by_id\<close> does fail with "no edge
  was found". Among the finds by owner, \<^verbatim>\<open>find_entity_tags\<close> raises where
  \<^verbatim>\<open>find_edge_tags\<close> returns the empty list.
\<close>

theorem tag_lookup_by_id_raises_attribute_error:
  "find_entity_tag_by_id M0 repo_events ''non-existent-id'' = Inl AttributeError
   \<and> find_edge_tag_by_id M0 repo_events ''non-existent-id'' = Inl AttributeError
   \<and> is_NotFound AttributeError = False
   \<and> find_entity_tag_by_id M0 repo_events ''t1'' = Inl AttributeError
   \<and> find_edge_by_id M0 repo_events ''non-existent-id'' = Inl EdgeNotFound
   \<and> find_entity_tags M0 repo_events fqdn2 None [] = Inl NoTagsFound
   \<and> find_edge_tags M0 repo_events stored_edge2 None [] = Inr []"
  by (simp add: find_entity_tag_by_id_raises find_edge_tag_by_id_raises find_edge_by_id_def
      single_def find_entity_tags_def find_edge_tags_def single_quoted_def ex_defs)

subsection \<open>Explicit ids and property types\<close>

text \<open>
  Claim C6 says that an upsert with an explicit id whose property type differs from the
  stored tag's fails with \<^verbatim>\<open>TypeMismatch\<close>. The tag \<open>t1\<close> is stored with the type
  \<^verbatim>\<open>SourceProperty\<close>; an upsert of \<open>t1\<close> with a \<^verbatim>\<open>SimpleProperty\<close> fails at the lookup
  by id, with the error that the same upsert with a \<^verbatim>\<open>SourceProperty\<close> gets. No
  function of the package compares property types.
\<close>

theorem explicit_id_upsert_fails_at_lookup:
  "n_tag_id stored_entity_tag_node = Some ''t1''
   \<and> n_ttype stored_entity_tag_node = Some ''SourceProperty''
   \<and> create_entity_tag M0 repo_events ev0
        \<lparr> etag_id = Some ''t1'', etag_created_at = None, etag_updated_at = None,
          etag_entity = fqdn1, etag_prop = Some (''SimpleProperty'', ''myscript'', 100) \<rparr>
       = (repo_events, Inl AttributeError)
   \<and> create_entity_tag M0 repo_events ev0
        \<lparr> etag_id = Some ''t1'', etag_created_at = None, etag_updated_at = None,
          etag_entity = fqdn1, etag_prop = Some (''SourceProperty'', ''myscript'', 100) \<rparr>
       = (repo_events, Inl AttributeError)
   \<and> create_edge_tag M0 repo_events ev0
        \<lparr> gtag_id = Some ''t2'', gtag_created_at = None, gtag_updated_at = None,
          gtag_edge = stored_edge, gtag_prop = Some (''SimpleProperty'', ''myscript'', 100) \<rparr>
       = (repo_events, Inl AttributeError)"
  by (simp add: create_entity_tag_def create_edge_tag_def find_existing_entity_tag_def
      find_existing_edge_tag_def find_entity_tag_by_id_raises find_edge_tag_by_id_raises
      stored_entity_tag_node_def)

subsection \<open>Deletion\<close>

text \<open>
  Claim C7 says that a delete returns the stored record, emits the \<^verbatim>\<open>Deleted\<close> event and
  makes a later find by id fail. \<^verbatim>\<open>delete_edge\<close> finds the stored edge \<open>x1\<close>, then its
  statement is rejected: it raises, the edge is still found afterwards, and no event is
  logged. \<^verbatim>\<open>delete_entity_tag\<close> and \<^verbatim>\<open>delete_edge_tag\<close> raise at their lookup by id.
\<close>

theorem delete_leaves_record_stored:
  "find_edge_by_id M0 repo_events ''x1'' = Inr stored_edge
   \<and> delete_edge M0 repo_events ''x1'' = (repo_events, Inl CypherSyntaxError)
   \<and> find_edge_by_id M0 (fst (delete_edge M0 repo_events ''x1'')) ''x1'' = Inr stored_edge
   \<and> delete_entity_tag M0 repo_events ''t1'' = (repo_events, Inl AttributeError)
   \<and> delete_edge_tag M0 repo_events ''t2'' = (repo_events, Inl AttributeError)
   \<and> events_buffer repo_events = []"
  by (simp add: delete_edge_def delete_relationship_def delete_entity_tag_raises
      delete_edge_tag_raises find_edge_by_id_def single_def ex_defs find_entity_by_id_def
      relationship_to_edge_def expect_datetime_def)

subsection \<open>The event log\<close>

text \<open>
  With emission enabled, every \<^verbatim>\<open>create_edge\<close>, \<^verbatim>\<open>create_entity_tag\<close> and
  \<^verbatim>\<open>create_edge_tag\<close> call that returns a record (an insert, an update or a no-op)
  appends exactly one event, about that record, at the end of the log; emission stays
  enabled, so the events of successive calls follow each other in the order of the
  calls. \<^verbatim>\<open>flush_events\<close> returns the log in order, clears it and leaves the store alone,
  so that a second flush returns the empty list.
\<close>

lemma upsert_appends_one_event:
  assumes "emit_events self"
  shows "create_edge M self ev edge = (self', Inr r) \<Longrightarrow>
           \<exists>e. edge_event e r \<and> events_buffer self' = events_buffer self @ [e]"
    and "create_entity_tag M self ev tag = (self'', Inr t) \<Longrightarrow>
           \<exists>e. entity_tag_event e t \<and> events_buffer self'' = events_buffer self @ [e]"
    and "create_edge_tag M self ev gtag = (self''', Inr gt) \<Longrightarrow>
           \<exists>e. edge_tag_event e gt \<and> events_buffer self''' = events_buffer self @ [e]"
    and "emit_events (fst (create_edge M self ev edge))"
    and "emit_events (fst (create_entity_tag M self ev tag))"
    and "emit_events (fst (create_edge_tag M self ev gtag))"
proof -
  show "create_edge M self ev edge = (self', Inr r) \<Longrightarrow>
           \<exists>e. edge_event e r \<and> events_buffer self' = events_buffer self @ [e]"
    using assms create_edge_Inr [of M self ev edge self' r] by (auto simp: emit_def)
  show "create_entity_tag M self ev tag = (self'', Inr t) \<Longrightarrow>
           \<exists>e. entity_tag_event e t \<and> events_buffer self'' = events_buffer self @ [e]"
    using assms create_entity_tag_Inr [of M self ev tag self'' t] by (auto simp: emit_def)
  show "create_edge_tag M self ev gtag = (self''', Inr gt) \<Longrightarrow>
           \<exists>e. edge_tag_event e gt \<and> events_buffer self''' = events_buffer self @ [e]"
    using assms create_edge_tag_Inr [of M self ev gtag self''' gt] by (auto simp: emit_def)
qed (simp_all add: assms create_edge_flag_and_buffer create_entity_tag_flag_and_buffer
      create_edge_tag_flag_and_buffer)

lemma flush_events_drains:
  "snd (flush_events self) = events_buffer self
   \<and> events_buffer (fst (flush_events self)) = []
   \<and> db (fst (flush_events self)) = db self
   \<and> emit_events (fst (flush_events self)) = emit_events self
   \<and> snd (flush_events (fst (flush_events self))) = []"
  by (simp add: flush_events_def)

text \<open>
  Claim C8 says that with emission enabled every mutation attempt, a delete included,
  appends exactly one event. No delete appends one. On a repository that emits events
  the edge \<open>x1\<close> is stored and found; \<^verbatim>\<open>delete_edge\<close> raises at its statement, before
  \<^verbatim>\<open>_emit\<close>, and the flush after it returns the empty list. \<^verbatim>\<open>delete_entity_tag\<close> and
  \<^verbatim>\<open>delete_edge_tag\<close> raise at their lookup by id, for the stored tags \<open>t1\<close> and \<open>t2\<close>.
  The scenario of the package's test (insert an edge, flush, delete it, flush) ends with
  an empty list where the test expects one \<^verbatim>\<open>EdgeDeleted\<close>.
\<close>

theorem delete_attempt_logs_no_event:
  "emit_events repo_events = True
   \<and> find_edge_by_id M0 repo_events ''x1'' = Inr stored_edge
   \<and> snd (delete_edge M0 repo_events ''x1'') = Inl CypherSyntaxError
   \<and> snd (flush_events (fst (delete_edge M0 repo_events ''x1''))) = []
   \<and> n_tag_id stored_entity_tag_node = Some ''t1''
   \<and> snd (flush_events (fst (delete_entity_tag M0 repo_events ''t1''))) = []
   \<and> n_tag_id stored_edge_tag_node = Some ''t2''
   \<and> snd (flush_events (fst (delete_edge_tag M0 repo_events ''t2''))) = []
   \<and> snd (flush_events (run M0 repo_events [CreateEdge ev0 (submit_edge (''dns_record'', 9))]))
       = [EdgeInserted
            \<lparr> edge_id = Some ''u9'', edge_created_at = Some 20, edge_updated_at = Some 21,
              relation = (''dns_record'', 9), from_entity = fqdn1, to_entity = ip1 \<rparr>]
   \<and> snd (flush_events (run M0 repo_events
            [CreateEdge ev0 (submit_edge (''dns_record'', 9)), FlushEvents, DeleteEdge ''u9'']))
       = []"
  by (simp add: run_def flush_events_def delete_edge_def delete_relationship_def
      delete_entity_tag_raises delete_edge_tag_raises ex_defs edge_defs text_defs)

subsection \<open>The taxonomy flag\<close>











text \<open>
  The statement text is the other door: an edge whose upper-cased label is not a bare
  name, or whose end node ids would end their string literal, passes the gate (or meets
  no gate) and is refused by the server. Nothing is written and nothing is logged.
\<close>

lemma unreadable_statement_rejected:
  assumes "\<not> (enforce_taxonomy self \<and> \<not> taxonomy_valid M edge)"
    and "find_existing_edge M self edge = Inr None"
    and "\<not> edge_statement_ok M edge"
  shows "create_edge M self ev edge = (self, Inl CypherSyntaxError)"
  using assms
  by (simp add: create_edge_def Let_def create_relationship_def
      edge_statement_ok_def edge_label_def)

lemma spaced_label_rejected:
  "create_edge M0 repo_no_taxonomy ev0 spaced_edge = (repo_no_taxonomy, Inl CypherSyntaxError)"
  by (simp add: ex_defs edge_defs text_defs)



subsection \<open>Events are off by default\<close>

lemma step_disabled:
  assumes "\<not> emit_events self" and "events_buffer self = []"
  shows "\<not> emit_events (step M self c) \<and> events_buffer (step M self c) = []"
proof (cases c)
  case (CreateEdge ev edge)
  with assms create_edge_flag_and_buffer [of M self ev edge] show ?thesis by simp
next
  case (CreateRelation ev rel f t)
  with assms create_edge_flag_and_buffer [of M self ev] show ?thesis
    by (simp add: create_relation_def)
next
  case (DeleteEdge i)
  with assms delete_edge_raises [of M self i] show ?thesis by simp
next
  case (CreateEntityTag ev tag)
  with assms create_entity_tag_flag_and_buffer [of M self ev tag] show ?thesis by simp
next
  case (CreateEntityProperty ev entity pr)
  with assms create_entity_tag_flag_and_buffer [of M self ev] show ?thesis
    by (simp add: create_entity_property_def)
next
  case (DeleteEntityTag i)
  with assms show ?thesis by (simp add: delete_entity_tag_raises)
next
  case (CreateEdgeTag ev tag)
  with assms create_edge_tag_flag_and_buffer [of M self ev tag] show ?thesis by simp
next
  case (CreateEdgeProperty ev edge pr)
  with assms create_edge_tag_flag_and_buffer [of M self ev] show ?thesis
    by (simp add: create_edge_property_def)
next
  case (DeleteEdgeTag i)
  with assms show ?thesis by (simp add: delete_edge_tag_raises)
next
  case FlushEvents
  with assms show ?thesis by (simp add: flush_events_def)
qed

lemma run_disabled:
  "\<not> emit_events self \<Longrightarrow> events_buffer self = [] \<Longrightarrow>
     \<not> emit_events (run M self calls) \<and> events_buffer (run M self calls) = []"
  unfolding run_def
proof (induction calls arbitrary: self)
  case Nil
  then show ?case by simp
next
  case (Cons c calls)
  from step_disabled [OF Cons.prems, of M c] Cons.IH [of "step M self c"]
  show ?case by simp
qed

text \<open>
  Claim C10: a repository built without the \<^verbatim>\<open>emit_events\<close> argument has the flag off;
  while it is off (left out or passed as false), the buffer is empty after any sequence
  of create, update, delete and flush calls, and \<^verbatim>\<open>flush_events\<close> returns the empty
  list.
\<close>

theorem events_disabled_by_default:
  "emit_events (init g enforce None) = False
   \<and> events_buffer (run M (init g enforce None) calls) = []
   \<and> snd (flush_events (run M (init g enforce None) calls)) = []
   \<and> events_buffer (run M (init g enforce (Some False)) calls) = []
   \<and> snd (flush_events (run M (init g enforce (Some False)) calls)) = []"
  by (simp add: run_disabled flush_events_def init_def)

end
